theory Spec2Isabelle
  imports Main "HOL-Library.Word" "HOL-Library.Signed_Division"
begin

section \<open>swamp: the credential exchange of \<open>swamp.go\<close>\<close>

text \<open>
  The program talks to the outside world at every step: the AWS SDK (session
  construction and the three STS calls), a shell command or the terminal for the MFA
  code, the profile writer, the export file, the clock. The model keeps the code's own
  control flow and makes the outside world a parameter: a record of functions that
  answer each call, given the calls made so far. Every call is appended to a trace, so
  that the order and the arguments of the calls can be stated in theorems.
\<close>

subsection \<open>Go library functions used by the code\<close>

type_synonym go_error = string
type_synonym int64 = "64 word"

definition LF :: char where
  "LF = CHR 0x0A"

definition CR :: char where
  "CR = CHR 0x0D"

definition TAB :: char where
  "TAB = CHR 0x09"

text \<open>
  \<open>strings.Trim(s, cutset)\<close> removes every leading and every trailing character that
  is in the cutset. The only cutset of the program is ASCII, so bytes and code points
  coincide.
\<close>

definition strings_Trim :: "string \<Rightarrow> string \<Rightarrow> string" where
  "strings_Trim s cutset =
     rev (dropWhile (\<lambda>c. c \<in> set cutset) (rev (dropWhile (\<lambda>c. c \<in> set cutset) s)))"

text \<open>
  \<open>strings.Split(s, sep)\<close> for a separator of one byte, which is the only way the
  program calls it (\<open>"/"\<close>): the pieces between the occurrences of the separator, one
  more piece than there are occurrences. In the second equation the split of the rest
  is never empty; its empty case is there to make the function total.
\<close>

fun strings_Split :: "string \<Rightarrow> char \<Rightarrow> string list" where
  "strings_Split [] sep = [[]]"
| "strings_Split (c # cs) sep =
     (if c = sep then [] # strings_Split cs sep
      else (case strings_Split cs sep of [] \<Rightarrow> [[c]] | p # ps \<Rightarrow> (c # p) # ps))"

text \<open>
  \<open>time.Second * time.Duration(n)\<close>: a \<open>Duration\<close> is an \<open>int64\<close> of nanoseconds
  and the product wraps. \<open>a / 2\<close> on \<open>int64\<close> truncates towards zero.
\<close>

definition time_Second :: int64 where
  "time_Second = 1000000000"

definition int64_div :: "int64 \<Rightarrow> int64 \<Rightarrow> int64" where
  "int64_div a b = word_of_int (sint a sdiv sint b)"

subsection \<open>Data\<close>

text \<open>
  The struct \<open>SwampConfig\<close> is declared outside \<open>swamp.go\<close>; these are the fields
  that \<open>swamp.go\<close> reads, with the types it uses them at.
\<close>

record SwampConfig =
  profile :: string
  region :: string
  intermediateProfile :: string
  intermediateDuration :: int64
  targetProfile :: string
  targetDuration :: int64
  tokenSerialNumber :: string
  mfaExec :: string
  exportProfile :: bool
  exportFile :: string
  renew :: bool

record session_Options =
  Config_Region :: "string option"
  Profile :: string

text \<open>
  A session remembers the options it was built from; \<open>sess_Config_Region\<close> is the
  field \<open>sess.Config.Region\<close>, a pointer that the SDK sets when it builds the session.
\<close>

record session_Session =
  sess_Options :: session_Options
  sess_Config_Region :: "string option"

record sts_Credentials =
  AccessKeyId :: string
  SecretAccessKey :: string
  SessionToken :: string
  Expiration :: string

record sts_GetCallerIdentityOutput =
  Account :: "string option"
  Arn :: "string option"
  UserId :: "string option"

datatype ProfileWriter = ProfileWriter

datatype event =
    Stdout string
  | Stderr string
  | Flag_Usage
  | PW_New
  | Session_New session_Options
  | STS_GetCallerIdentity session_Session
  | STS_GetSessionToken session_Session int64 string string
  | STS_AssumeRole session_Session string string int64
  | Exec_Command string "string list"
  | Stdin_ReadString
  | PW_WriteProfile "sts_Credentials option" string "string option"
  | OS_Create string
  | File_Write string string
  | Time_Sleep int64

text \<open>
  The outside world. Each function answers one kind of call; its first argument is the
  trace before the call. \<open>Inl\<close> is the Go error of a call that returns
  \<open>(value, error)\<close>; \<open>Some\<close> is the error of a call that returns only \<open>error\<close>.
  \<open>config_Validate\<close> and \<open>config_GetRoleArn\<close> are the two methods of
  \<open>SwampConfig\<close> that \<open>swamp.go\<close> calls and does not define; the same holds for
  \<open>NewProfileWriter\<close> and \<open>pw.WriteProfile\<close>. Like the SDK, they are known to
  \<open>swamp.go\<close> only by what they are given and what they return.
  \<open>session_loadConfig\<close> is what the SDK loads from the environment and the shared
  configuration files when it builds a session: an error, or the region it finds
  there, if any. \<open>os_File_Write\<close> is the number of bytes of a write to a file that
  reach the file: fewer than the length of the text when the write fails or stops short.
\<close>

record world =
  config_Validate :: "SwampConfig \<Rightarrow> go_error option"
  config_GetRoleArn :: "SwampConfig \<Rightarrow> string"
  NewProfileWriter :: "event list \<Rightarrow> go_error + ProfileWriter"
  session_loadConfig :: "event list \<Rightarrow> session_Options \<Rightarrow> go_error + string option"
  sts_GetCallerIdentity :: "event list \<Rightarrow> session_Session \<Rightarrow> go_error + sts_GetCallerIdentityOutput"
  sts_GetSessionToken ::
    "event list \<Rightarrow> session_Session \<Rightarrow> int64 \<Rightarrow> string \<Rightarrow> string \<Rightarrow> go_error + sts_Credentials option"
  sts_AssumeRole ::
    "event list \<Rightarrow> session_Session \<Rightarrow> string \<Rightarrow> string \<Rightarrow> int64 \<Rightarrow> go_error + sts_Credentials option"
  exec_Output :: "event list \<Rightarrow> string \<Rightarrow> string list \<Rightarrow> go_error + string"
  stdin_ReadString :: "event list \<Rightarrow> go_error + string"
  pw_WriteProfile ::
    "event list \<Rightarrow> ProfileWriter \<Rightarrow> sts_Credentials option \<Rightarrow> string \<Rightarrow> string option \<Rightarrow> go_error option"
  os_Create :: "event list \<Rightarrow> string \<Rightarrow> go_error option"
  os_File_Write :: "event list \<Rightarrow> string \<Rightarrow> string \<Rightarrow> nat"

text \<open>The state of a run: the calls made so far and the contents of the files.\<close>

record state =
  trace :: "event list"
  files :: "string \<rightharpoonup> string"

text \<open>
  How a function ends: it returns a value, or the process ends in \<open>os.Exit\<close>, or it
  panics.
\<close>

datatype 'a outcome = Return 'a | os_Exit int | Panic string

definition emit :: "event \<Rightarrow> state \<Rightarrow> state" where
  "emit e s = s\<lparr>trace := trace s @ [e]\<rparr>"

definition ret :: "'a \<Rightarrow> state \<Rightarrow> 'a outcome \<times> state" where
  "ret x s = (Return x, s)"

definition thenDo ::
  "(state \<Rightarrow> 'a outcome \<times> state) \<Rightarrow> ('a \<Rightarrow> state \<Rightarrow> 'b outcome \<times> state) \<Rightarrow> state \<Rightarrow> 'b outcome \<times> state" where
  "thenDo m f s =
     (case m s of
        (Return x, s1) \<Rightarrow> f x s1
      | (os_Exit c, s1) \<Rightarrow> (os_Exit c, s1)
      | (Panic e, s1) \<Rightarrow> (Panic e, s1))"

subsection \<open>The functions of \<open>swamp.go\<close>\<close>

definition die :: "string \<Rightarrow> go_error \<Rightarrow> state \<Rightarrow> 'a outcome \<times> state" where
  "die msg err s = (os_Exit 1, emit (Stderr (msg @ '': '' @ err @ [LF])) s)"

definition getCallerId :: "world \<Rightarrow> session_Session \<Rightarrow> state \<Rightarrow> sts_GetCallerIdentityOutput outcome \<times> state" where
  "getCallerId w svc s =
     (case sts_GetCallerIdentity w (trace s) svc of
        Inl err \<Rightarrow> die ''Error fetching caller id'' err (emit (STS_GetCallerIdentity svc) s)
      | Inr output \<Rightarrow> (Return output, emit (STS_GetCallerIdentity svc) s))"

definition cleanTokenCode :: "string \<Rightarrow> string" where
  "cleanTokenCode tokenCode = strings_Trim tokenCode [CHR '' '', CR, LF]"

definition fetchTokenCode :: "world \<Rightarrow> string \<Rightarrow> string \<Rightarrow> state \<Rightarrow> string outcome \<times> state" where
  "fetchTokenCode w serialNumber cmd s =
     (let s1 = emit (Stdout (''Obtaining mfa token for: '' @ serialNumber @ [LF])) s;
          s2 = emit (Exec_Command ''/bin/sh'' [''-c'', cmd]) s1
      in case exec_Output w (trace s1) ''/bin/sh'' [''-c'', cmd] of
           Inl err \<Rightarrow> die ''Error obtaining mfa token'' err s2
         | Inr output \<Rightarrow> (Return output, s2))"

definition askForTokenCode :: "world \<Rightarrow> string \<Rightarrow> state \<Rightarrow> string outcome \<times> state" where
  "askForTokenCode w serialNumber s =
     (let s1 = emit (Stdout (''Enter mfa token for '' @ serialNumber @ '': '')) s;
          s2 = emit Stdin_ReadString s1
      in case stdin_ReadString w (trace s1) of
           Inl err \<Rightarrow> die ''Error reading mfa token'' err s2
         | Inr tokenCode \<Rightarrow> (Return tokenCode, s2))"

definition getTokenCode :: "world \<Rightarrow> SwampConfig \<Rightarrow> state \<Rightarrow> string outcome \<times> state" where
  "getTokenCode w config =
     thenDo (if mfaExec config \<noteq> []
             then fetchTokenCode w (tokenSerialNumber config) (mfaExec config)
             else askForTokenCode w (tokenSerialNumber config))
       (\<lambda>tokenCode. ret (cleanTokenCode tokenCode))"

text \<open>
  \<open>session.NewSessionWithOptions(options)\<close>. The SDK merges the configuration of the
  options into that of the session, so that a region pointer given in the options is
  never lost: a region of the options that is not empty is the region of the session;
  when the options give no region or an empty one, a region found in the environment
  or the shared configuration is taken if there is one, and otherwise the pointer of
  the options stays. \<open>session_NewSessionWithOptions\<close> gives the error, or the field
  \<open>Config.Region\<close> of the session that is built.
\<close>

definition mergeRegion :: "string option \<Rightarrow> string option \<Rightarrow> string option" where
  "mergeRegion userRegion found =
     (if (case userRegion of None \<Rightarrow> True | Some r \<Rightarrow> r = [])
      then (case found of
              None \<Rightarrow> userRegion
            | Some e \<Rightarrow> if e \<noteq> [] then Some e else userRegion)
      else userRegion)"

definition session_NewSessionWithOptions ::
  "world \<Rightarrow> event list \<Rightarrow> session_Options \<Rightarrow> go_error + string option" where
  "session_NewSessionWithOptions w h options =
     (case session_loadConfig w h options of
        Inl err \<Rightarrow> Inl err
      | Inr found \<Rightarrow> Inr (mergeRegion (Config_Region options) found))"

text \<open>
  \<open>session.Must(session.NewSessionWithOptions(options))\<close>: \<open>Must\<close> panics when the
  session cannot be built.
\<close>

definition session_Must_New :: "world \<Rightarrow> session_Options \<Rightarrow> state \<Rightarrow> session_Session outcome \<times> state" where
  "session_Must_New w options s =
     (case session_NewSessionWithOptions w (trace s) options of
        Inl err \<Rightarrow> (Panic err, emit (Session_New options) s)
      | Inr r \<Rightarrow> (Return \<lparr>sess_Options = options, sess_Config_Region = r\<rparr>, emit (Session_New options) s))"

definition validateSessionToken :: "world \<Rightarrow> session_Options \<Rightarrow> state \<Rightarrow> bool outcome \<times> state" where
  "validateSessionToken w options =
     thenDo (session_Must_New w options)
       (\<lambda>sess s. case sts_GetCallerIdentity w (trace s) sess of
                   Inl err \<Rightarrow> (Return False, emit (STS_GetCallerIdentity sess) s)
                 | Inr _ \<Rightarrow> (Return True, emit (STS_GetCallerIdentity sess) s))"

definition getSessionToken ::
  "world \<Rightarrow> session_Options \<Rightarrow> SwampConfig \<Rightarrow> state \<Rightarrow> sts_Credentials option outcome \<times> state" where
  "getSessionToken w options config =
     thenDo (session_Must_New w options)
       (\<lambda>sess. thenDo (getTokenCode w config)
         (\<lambda>tokenCode s.
            case sts_GetSessionToken w (trace s) sess (intermediateDuration config)
                   (tokenSerialNumber config) tokenCode of
              Inl err \<Rightarrow> die ''Error getting session token'' err
                (emit (STS_GetSessionToken sess (intermediateDuration config)
                   (tokenSerialNumber config) tokenCode) s)
            | Inr cred \<Rightarrow> (Return cred,
                emit (STS_GetSessionToken sess (intermediateDuration config)
                   (tokenSerialNumber config) tokenCode) s)))"

definition newSessionOptions :: "string \<Rightarrow> string \<Rightarrow> session_Options" where
  "newSessionOptions prof reg = \<lparr>Config_Region = Some reg, Profile = prof\<rparr>"

definition getIntermediateSessionOptions :: "SwampConfig \<Rightarrow> session_Options" where
  "getIntermediateSessionOptions config = newSessionOptions (intermediateProfile config) (region config)"

definition getBaseSessionOptions :: "SwampConfig \<Rightarrow> session_Options" where
  "getBaseSessionOptions config = newSessionOptions (profile config) (region config)"

text \<open>The call \<open>pw.WriteProfile(cred, name, region)\<close> with the check that follows it.\<close>

definition writeProfileOrDie ::
  "world \<Rightarrow> ProfileWriter \<Rightarrow> sts_Credentials option \<Rightarrow> string \<Rightarrow> string option \<Rightarrow> state \<Rightarrow> unit outcome \<times> state" where
  "writeProfileOrDie w pw cred name reg s =
     (case pw_WriteProfile w (trace s) pw cred name reg of
        Some err \<Rightarrow> die ''Error writing profile'' err (emit (PW_WriteProfile cred name reg) s)
      | None \<Rightarrow> (Return (), emit (PW_WriteProfile cred name reg) s))"

definition ensureSessionTokenProfile :: "world \<Rightarrow> SwampConfig \<Rightarrow> ProfileWriter \<Rightarrow> state \<Rightarrow> unit outcome \<times> state" where
  "ensureSessionTokenProfile w config pw =
     thenDo (validateSessionToken w (getIntermediateSessionOptions config))
       (\<lambda>valid.
          if valid
          then (\<lambda>s. (Return (),
                 emit (Stdout (''Session token for profile '' @ profile config @ '' is still valid'' @ [LF])) s))
          else thenDo (getSessionToken w (getBaseSessionOptions config) config)
                 (\<lambda>cred. writeProfileOrDie w pw cred (intermediateProfile config) (Some (region config))))"

definition assumeRole ::
  "world \<Rightarrow> session_Session \<Rightarrow> string \<Rightarrow> string \<Rightarrow> int64 \<Rightarrow> state \<Rightarrow> sts_Credentials option outcome \<times> state" where
  "assumeRole w svc roleArn roleSessionName duration s =
     (case sts_AssumeRole w (trace s) svc roleArn roleSessionName duration of
        Inl err \<Rightarrow> die ''Error assuming role'' err (emit (STS_AssumeRole svc roleArn roleSessionName duration) s)
      | Inr cred \<Rightarrow> (Return cred, emit (STS_AssumeRole svc roleArn roleSessionName duration) s))"

text \<open>
  Lines 133 to 135: the ARN pointer is dereferenced (a nil pointer panics), the string
  is split on \<open>/\<close>, and the element at index \<open>len(parts)-1\<close> is read (an index out
  of range panics).
\<close>

definition roleSessionNameOf :: "string \<Rightarrow> string outcome" where
  "roleSessionNameOf userId =
     (let parts = strings_Split userId (CHR ''/'')
      in if length parts = 0 then Panic ''index out of range [-1]''
         else Return (parts ! (length parts - 1)))"

definition deriveRoleSessionName :: "string option \<Rightarrow> state \<Rightarrow> string outcome \<times> state" where
  "deriveRoleSessionName userId s =
     (case userId of
        None \<Rightarrow> (Panic ''invalid memory address or nil pointer dereference'', s)
      | Some a \<Rightarrow> (roleSessionNameOf a, s))"

definition ensureTargetProfile ::
  "world \<Rightarrow> SwampConfig \<Rightarrow> ProfileWriter \<Rightarrow> session_Session \<Rightarrow> state \<Rightarrow> unit outcome \<times> state" where
  "ensureTargetProfile w config pw sess =
     thenDo (getCallerId w sess)
       (\<lambda>output. thenDo (deriveRoleSessionName (Arn output))
         (\<lambda>roleSessionName.
            thenDo (assumeRole w sess (config_GetRoleArn w config) roleSessionName (targetDuration config))
              (\<lambda>cred. writeProfileOrDie w pw cred (targetProfile config) (sess_Config_Region sess))))"

text \<open>
  \<open>os.Create\<close> truncates the file when it exists and creates it empty when it does
  not; \<open>Fprintf\<close> then writes the formatted text at the end of what the file holds.
  The write can fail or stop short (a full disk): then only the first bytes of the text
  reach the file. The code does not look at the result of the write, so it returns in
  the same way whether the text was written or not.
\<close>

definition exportText :: "string \<Rightarrow> string" where
  "exportText tp =
     ''export AWS_PROFILE='' @ tp @ [LF] @ ''unset AWS_ACCESS_KEY_ID'' @ [LF]
       @ ''unset AWS_SECRET_ACCESS_KEY'' @ [LF]"

definition file_Fprintf :: "world \<Rightarrow> string \<Rightarrow> string \<Rightarrow> state \<Rightarrow> state" where
  "file_Fprintf w path txt s =
     (let written = take (os_File_Write w (trace s) path txt) txt
      in (emit (File_Write path txt) s)
           \<lparr>files := (files s)(path \<mapsto>
              (case files s path of None \<Rightarrow> written | Some old \<Rightarrow> old @ written))\<rparr>)"

definition writeProfileToFile :: "world \<Rightarrow> SwampConfig \<Rightarrow> state \<Rightarrow> unit outcome \<times> state" where
  "writeProfileToFile w config s =
     (case os_Create w (trace s) (exportFile config) of
        Some err \<Rightarrow> die ''Error writing target profile to export file'' err
                     (emit (OS_Create (exportFile config)) s)
      | None \<Rightarrow>
          (Return (),
           file_Fprintf w (exportFile config) (exportText (targetProfile config))
             ((emit (OS_Create (exportFile config)) s)\<lparr>files := (files s)(exportFile config \<mapsto> [])\<rparr>)))"

text \<open>
  \<open>main\<close>. The configuration is what flag parsing produced. \<open>main_baseProfile\<close> is
  the variable \<open>baseProfile\<close> of lines 165 to 169, \<open>main_loop_body\<close> is one pass
  through the body of the \<open>for\<close> loop up to the test of \<open>renew\<close>, and
  \<open>main_loop\<close> is the loop. The loop has no exit when \<open>renew\<close> is set, so it is run
  for a number of passes: the result \<open>None\<close> says that the loop is still running
  after that many passes.
\<close>

definition main_baseProfile :: "SwampConfig \<Rightarrow> string" where
  "main_baseProfile config =
     (if tokenSerialNumber config \<noteq> [] then intermediateProfile config else profile config)"

definition main_loop_body :: "world \<Rightarrow> SwampConfig \<Rightarrow> string \<Rightarrow> ProfileWriter \<Rightarrow> state \<Rightarrow> unit outcome \<times> state" where
  "main_loop_body w config baseProfile pw =
     thenDo (if tokenSerialNumber config \<noteq> [] then ensureSessionTokenProfile w config pw else ret ())
       (\<lambda>_. thenDo (session_Must_New w (newSessionOptions baseProfile (region config)))
         (\<lambda>sess. thenDo (ensureTargetProfile w config pw sess)
           (\<lambda>_. if exportProfile config then writeProfileToFile w config else ret ())))"

definition sleepDuration :: "SwampConfig \<Rightarrow> int64" where
  "sleepDuration config = time_Second * int64_div (targetDuration config) 2"

fun main_loop ::
  "nat \<Rightarrow> world \<Rightarrow> SwampConfig \<Rightarrow> string \<Rightarrow> ProfileWriter \<Rightarrow> state \<Rightarrow> unit outcome option \<times> state" where
  "main_loop 0 w config baseProfile pw s = (None, s)"
| "main_loop (Suc n) w config baseProfile pw s =
     (case main_loop_body w config baseProfile pw s of
        (Return _, s1) \<Rightarrow>
          if \<not> renew config then (Some (Return ()), s1)
          else main_loop n w config baseProfile pw (emit (Time_Sleep (sleepDuration config)) s1)
      | (os_Exit c, s1) \<Rightarrow> (Some (os_Exit c), s1)
      | (Panic e, s1) \<Rightarrow> (Some (Panic e), s1))"

definition main :: "nat \<Rightarrow> world \<Rightarrow> SwampConfig \<Rightarrow> state \<Rightarrow> unit outcome option \<times> state" where
  "main n w config s =
     (case config_Validate w config of
        Some err \<Rightarrow> (Some (os_Exit 1), emit Flag_Usage (emit (Stderr (err @ [LF])) s))
      | None \<Rightarrow>
          (case NewProfileWriter w (trace s) of
             Inl err \<Rightarrow>
               (case die ''Error initializing profile writer'' err (emit PW_New s) of
                  (out, s1) \<Rightarrow> (Some out, s1))
           | Inr pw \<Rightarrow> main_loop n w config (main_baseProfile config) pw (emit PW_New s)))"

subsection \<open>Notions used to state the properties\<close>

text \<open>
  The last path segment of an ARN, as the specification words it: what follows the
  last \<open>/\<close>, or the whole string when there is none.
\<close>

definition lastSegment :: "string \<Rightarrow> string" where
  "lastSegment arn = rev (takeWhile (\<lambda>c. c \<noteq> CHR ''/'') (rev arn))"

text \<open>Putting the pieces of a split together again, with the separator between them.\<close>

fun joinWith :: "char \<Rightarrow> string list \<Rightarrow> string" where
  "joinWith sep [] = []"
| "joinWith sep [p] = p"
| "joinWith sep (p # q # ps) = p @ sep # joinWith sep (q # ps)"


text \<open>The characters that \<open>cleanTokenCode\<close> strips.\<close>

definition trimmed :: "char \<Rightarrow> bool" where
  "trimmed c = (c = CHR '' '' \<or> c = CR \<or> c = LF)"

fun is_GetSessionToken :: "event \<Rightarrow> bool" where
  "is_GetSessionToken (STS_GetSessionToken _ _ _ _) = True"
| "is_GetSessionToken _ = False"

fun is_AssumeRole :: "event \<Rightarrow> bool" where
  "is_AssumeRole (STS_AssumeRole _ _ _ _) = True"
| "is_AssumeRole _ = False"

fun is_WriteProfile :: "event \<Rightarrow> bool" where
  "is_WriteProfile (PW_WriteProfile _ _ _) = True"
| "is_WriteProfile _ = False"

fun is_Sleep :: "event \<Rightarrow> bool" where
  "is_Sleep (Time_Sleep _) = True"
| "is_Sleep _ = False"

fun is_provider_call :: "event \<Rightarrow> bool" where
  "is_provider_call (STS_GetCallerIdentity _) = True"
| "is_provider_call (STS_GetSessionToken _ _ _ _) = True"
| "is_provider_call (STS_AssumeRole _ _ _ _) = True"
| "is_provider_call _ = False"

fun is_token_acquisition :: "event \<Rightarrow> bool" where
  "is_token_acquisition (Exec_Command _ _) = True"
| "is_token_acquisition Stdin_ReadString = True"
| "is_token_acquisition _ = False"

text \<open>The events of start-up: messages on standard error, the usage text, opening the profile store.\<close>

fun is_startup :: "event \<Rightarrow> bool" where
  "is_startup (Stderr _) = True"
| "is_startup Flag_Usage = True"
| "is_startup PW_New = True"
| "is_startup _ = False"

text \<open>
  The part of the loop body that follows the intermediate session step: build the
  session, assume the role and write the target profile, export.
\<close>

definition main_loop_rest :: "world \<Rightarrow> SwampConfig \<Rightarrow> string \<Rightarrow> ProfileWriter \<Rightarrow> state \<Rightarrow> unit outcome \<times> state" where
  "main_loop_rest w config baseProfile pw =
     thenDo (session_Must_New w (newSessionOptions baseProfile (region config)))
       (\<lambda>sess. thenDo (ensureTargetProfile w config pw sess)
         (\<lambda>_. if exportProfile config then writeProfileToFile w config else ret ()))"

text \<open>
  What follows an assume-role call in the trace, given the trace \<open>h\<close> before the
  call: the error message when the call fails, else the write of the returned
  credentials under the target profile name with the region of the session, and no
  other profile write after it.
\<close>

definition after_AssumeRole ::
  "world \<Rightarrow> SwampConfig \<Rightarrow> ProfileWriter \<Rightarrow> event list \<Rightarrow> session_Session \<Rightarrow> string \<Rightarrow> string \<Rightarrow> int64
     \<Rightarrow> event list \<Rightarrow> bool" where
  "after_AssumeRole w cfg pw h sess a n d post =
     (case sts_AssumeRole w h sess a n d of
        Inl e \<Rightarrow> post = [Stderr (''Error assuming role: '' @ e @ [LF])]
      | Inr cred \<Rightarrow>
          (\<exists>post'. post = PW_WriteProfile cred (targetProfile cfg) (sess_Config_Region sess) # post'
              \<and> list_all (\<lambda>e. \<not> is_WriteProfile e) post'))"

text \<open>\<open>emits P f\<close>: from every state, \<open>f\<close> only adds events that satisfy \<open>P\<close> to the trace.\<close>

definition emits :: "(event \<Rightarrow> bool) \<Rightarrow> (state \<Rightarrow> 'a outcome \<times> state) \<Rightarrow> bool" where
  "emits P f = (\<forall>s. \<exists>evs. trace (snd (f s)) = trace s @ evs \<and> list_all P evs)"

subsection \<open>Example configurations and worlds\<close>

definition cfg_mfa :: SwampConfig where
  "cfg_mfa = \<lparr>profile = ''default'', region = ''eu-west-1'', intermediateProfile = ''session'',
     intermediateDuration = 43200, targetProfile = ''target'', targetDuration = 3600,
     tokenSerialNumber = ''arn:aws:iam::123456789012:mfa/alice'', mfaExec = ''oathtool --totp -b KEY'',
     exportProfile = True, exportFile = ''/tmp/current_swamp_profile'', renew = False\<rparr>"

definition cfg_plain :: SwampConfig where
  "cfg_plain = cfg_mfa\<lparr>tokenSerialNumber := [], mfaExec := []\<rparr>"

definition cfg_renew :: SwampConfig where
  "cfg_renew = cfg_plain\<lparr>renew := True\<rparr>"

definition alice_identity :: sts_GetCallerIdentityOutput where
  "alice_identity = \<lparr>Account = Some ''123456789012'',
     Arn = Some ''arn:aws:iam::123456789012:user/alice'', UserId = Some ''AIDAEXAMPLE''\<rparr>"

definition session_cred :: sts_Credentials where
  "session_cred = \<lparr>AccessKeyId = ''ASIASESSION'', SecretAccessKey = ''s1'', SessionToken = ''t1'',
     Expiration = ''2026-01-01T12:00:00Z''\<rparr>"

definition role_cred :: sts_Credentials where
  "role_cred = \<lparr>AccessKeyId = ''ASIAROLE'', SecretAccessKey = ''s2'', SessionToken = ''t2'',
     Expiration = ''2026-01-01T01:00:00Z''\<rparr>"

text \<open>
  A world in which every call succeeds, every session is valid, every write is complete
  and the environment names no region.
\<close>

definition world_ok :: world where
  "world_ok = \<lparr>
     config_Validate = (\<lambda>_. None),
     config_GetRoleArn = (\<lambda>_. ''arn:aws:iam::210987654321:role/admin''),
     NewProfileWriter = (\<lambda>_. Inr ProfileWriter),
     session_loadConfig = (\<lambda>_ _. Inr None),
     sts_GetCallerIdentity = (\<lambda>_ _. Inr alice_identity),
     sts_GetSessionToken = (\<lambda>_ _ _ _ _. Inr (Some session_cred)),
     sts_AssumeRole = (\<lambda>_ _ _ _ _. Inr (Some role_cred)),
     exec_Output = (\<lambda>_ _ _. Inr (''123456'' @ [LF])),
     stdin_ReadString = (\<lambda>_. Inr ('' 123456'' @ [CR, LF])),
     pw_WriteProfile = (\<lambda>_ _ _ _ _. None),
     os_Create = (\<lambda>_ _. None),
     os_File_Write = (\<lambda>_ _ txt. length txt)\<rparr>"

text \<open>
  The same world, except that the profile \<open>session\<close> has no valid credentials until
  a profile has been written.
\<close>

definition world_expired :: world where
  "world_expired = world_ok\<lparr>sts_GetCallerIdentity :=
     (\<lambda>h sess. if Profile (sess_Options sess) = ''session'' \<and> \<not> list_ex is_WriteProfile h
               then Inl ''ExpiredToken: the security token included in the request is expired''
               else Inr alice_identity)\<rparr>"

text \<open>A world in which the SDK cannot build a session (a shared credentials file that does not parse).\<close>

definition world_nosession :: world where
  "world_nosession = world_ok\<lparr>session_loadConfig :=
     (\<lambda>_ _. Inl ''SharedConfigLoadError: failed to load config file'')\<rparr>"

text \<open>A world in which the environment names a region.\<close>

definition world_envregion :: world where
  "world_envregion = world_ok\<lparr>session_loadConfig := (\<lambda>_ _. Inr (Some ''us-east-1''))\<rparr>"

text \<open>A world in which the disk is full: files can be created, and no byte can be written.\<close>

definition world_diskfull :: world where
  "world_diskfull = world_ok\<lparr>os_File_Write := (\<lambda>_ _ _. 0)\<rparr>"

text \<open>A world in which the profile store cannot be opened.\<close>

definition world_nowriter :: world where
  "world_nowriter = world_ok\<lparr>NewProfileWriter :=
     (\<lambda>_. Inl ''open /home/alice/.aws/credentials: permission denied'')\<rparr>"

text \<open>The sessions that the SDK builds in these worlds.\<close>

definition session_mfa :: session_Session where
  "session_mfa = \<lparr>sess_Options = \<lparr>Config_Region = Some ''eu-west-1'', Profile = ''session''\<rparr>,
     sess_Config_Region = Some ''eu-west-1''\<rparr>"

definition session_base :: session_Session where
  "session_base = \<lparr>sess_Options = \<lparr>Config_Region = Some ''eu-west-1'', Profile = ''default''\<rparr>,
     sess_Config_Region = Some ''eu-west-1''\<rparr>"

definition state0 :: state where
  "state0 = \<lparr>trace = [], files = Map.empty\<rparr>"


section \<open>Properties\<close>

text \<open>The definitions that a run on a concrete world unfolds.\<close>

lemmas run_defs = main_loop_body_def ensureSessionTokenProfile_def validateSessionToken_def
  getSessionToken_def getTokenCode_def fetchTokenCode_def askForTokenCode_def session_Must_New_def
  ensureTargetProfile_def getCallerId_def deriveRoleSessionName_def roleSessionNameOf_def
  assumeRole_def writeProfileOrDie_def writeProfileToFile_def file_Fprintf_def die_def
  thenDo_def ret_def emit_def Let_def main_baseProfile_def newSessionOptions_def
  getIntermediateSessionOptions_def getBaseSessionOptions_def cleanTokenCode_def strings_Trim_def
  session_NewSessionWithOptions_def mergeRegion_def LF_def CR_def

lemmas example_defs = world_ok_def world_expired_def world_envregion_def world_diskfull_def
  cfg_mfa_def cfg_plain_def
  cfg_renew_def state0_def alice_identity_def
  session_mfa_def session_base_def

subsection \<open>Splitting and trimming\<close>

lemma strings_Split_not_Nil: "strings_Split s sep \<noteq> []"
  by (induction s) (auto split: list.splits)

lemma strings_Split_Cons:
  "strings_Split (c # cs) sep =
     (if c = sep then [] # strings_Split cs sep
      else (c # hd (strings_Split cs sep)) # tl (strings_Split cs sep))"
  using strings_Split_not_Nil [of cs sep] by (cases "strings_Split cs sep") auto

lemma length_strings_Split: "length (strings_Split s sep) = Suc (count_list s sep)"
  by (induction s)
    (auto simp del: strings_Split.simps(2) simp add: strings_Split_Cons strings_Split_not_Nil)

lemma strings_Split_no_sep: "sep \<notin> set s \<Longrightarrow> strings_Split s sep = [s]"
  by (induction s) auto

lemma tl_strings_Split_Nil: "tl (strings_Split s sep) = [] \<longleftrightarrow> sep \<notin> set s"
proof -
  have "length (tl (strings_Split s sep)) = count_list s sep"
    by (simp add: length_strings_Split)
  then show ?thesis
    by (metis count_list_0_iff length_0_conv)
qed

text \<open>
  The model of \<open>strings.Split\<close> is the right one: no piece holds the separator, and
  the pieces joined with the separator give the string back.
\<close>

lemma pieces_no_sep: "p \<in> set (strings_Split s sep) \<Longrightarrow> sep \<notin> set p"
  by (induction s arbitrary: p)
    (auto simp del: strings_Split.simps(2) simp add: strings_Split_Cons strings_Split_not_Nil
       split: if_splits dest: hd_in_set list.set_sel(2)[OF strings_Split_not_Nil])

lemma join_strings_Split: "joinWith sep (strings_Split s sep) = s"
proof (induction s)
  case Nil
  show ?case by simp
next
  case (Cons c cs)
  obtain p ps where r: "strings_Split cs sep = p # ps"
    using strings_Split_not_Nil by (cases "strings_Split cs sep") auto
  show ?case using Cons r by (cases ps) auto
qed

lemma takeWhile_rev_no_sep: "sep \<notin> set cs \<Longrightarrow> takeWhile (\<lambda>c. c \<noteq> sep) (rev cs) = rev cs"
  by (rule takeWhile_eq_all_conv[THEN iffD2]) auto

lemma takeWhile_rev_no_sep_append:
  "sep \<notin> set cs \<Longrightarrow>
     takeWhile (\<lambda>c. c \<noteq> sep) (rev cs @ ys) = rev cs @ takeWhile (\<lambda>c. c \<noteq> sep) ys"
  by (rule takeWhile_append2) auto

lemma takeWhile_rev_sep:
  "sep \<in> set cs \<Longrightarrow> takeWhile (\<lambda>c. c \<noteq> sep) (rev cs @ ys) = takeWhile (\<lambda>c. c \<noteq> sep) (rev cs)"
  by (rule takeWhile_append1[of sep]) auto

lemma last_strings_Split: "last (strings_Split s sep) = rev (takeWhile (\<lambda>c. c \<noteq> sep) (rev s))"
proof (induction s)
  case Nil
  show ?case by simp
next
  case (Cons c cs)
  show ?case
  proof (cases "sep \<in> set cs")
    case True
    then have "tl (strings_Split cs sep) \<noteq> []"
      by (simp add: tl_strings_Split_Nil)
    then have "last (strings_Split (c # cs) sep) = last (strings_Split cs sep)"
      by (simp del: strings_Split.simps(2) add: strings_Split_Cons strings_Split_not_Nil last_tl)
    then show ?thesis
      using Cons True by (simp add: takeWhile_rev_sep)
  next
    case False
    then show ?thesis
      by (simp add: strings_Split_no_sep takeWhile_rev_no_sep_append)
  qed
qed

lemma roleSessionNameOf_eq: "roleSessionNameOf arn = Return (lastSegment arn)"
  by (simp add: roleSessionNameOf_def Let_def strings_Split_not_Nil lastSegment_def
    last_strings_Split [symmetric] last_conv_nth)

lemma lastSegment_append_slash: "CHR ''/'' \<notin> set x \<Longrightarrow> lastSegment (p @ CHR ''/'' # x) = x"
  by (simp add: lastSegment_def takeWhile_rev_no_sep_append)

lemma trimmed_cutset: "(c \<in> set [CHR '' '', CR, LF]) = trimmed c"
  by (auto simp: trimmed_def)

lemma cleanTokenCode_alt:
  "cleanTokenCode t = rev (dropWhile trimmed (rev (dropWhile trimmed t)))"
  unfolding cleanTokenCode_def strings_Trim_def trimmed_cutset ..

lemma dropWhile_split_right:
  "dropWhile P raw = rev (dropWhile P (rev (dropWhile P raw))) @ rev (takeWhile P (rev (dropWhile P raw)))"
proof -
  have "rev (dropWhile P raw) = takeWhile P (rev (dropWhile P raw)) @ dropWhile P (rev (dropWhile P raw))"
    by simp
  then have "rev (rev (dropWhile P raw)) = rev (takeWhile P (rev (dropWhile P raw)) @ dropWhile P (rev (dropWhile P raw)))"
    by (rule arg_cong)
  then show ?thesis by (simp only: rev_rev_ident rev_append)
qed

lemma cleanTokenCode_split:
  "raw = takeWhile trimmed raw @ cleanTokenCode raw @ rev (takeWhile trimmed (rev (dropWhile trimmed raw)))"
proof -
  have "raw = takeWhile trimmed raw @ dropWhile trimmed raw" by simp
  also have "dropWhile trimmed raw = cleanTokenCode raw @ rev (takeWhile trimmed (rev (dropWhile trimmed raw)))"
    unfolding cleanTokenCode_alt by (rule dropWhile_split_right)
  finally show ?thesis .
qed

lemma cleanTokenCode_decomp:
  "\<exists>pre suf. raw = pre @ cleanTokenCode raw @ suf \<and> list_all trimmed pre \<and> list_all trimmed suf"
proof (intro exI conjI)
  show "raw = takeWhile trimmed raw @ cleanTokenCode raw @ rev (takeWhile trimmed (rev (dropWhile trimmed raw)))"
    by (rule cleanTokenCode_split)
  show "list_all trimmed (takeWhile trimmed raw)"
    by (auto simp: list_all_iff dest: set_takeWhileD)
  show "list_all trimmed (rev (takeWhile trimmed (rev (dropWhile trimmed raw))))"
    by (auto simp: list_all_iff dest: set_takeWhileD)
qed

lemma cleanTokenCode_last: "cleanTokenCode raw \<noteq> [] \<Longrightarrow> \<not> trimmed (last (cleanTokenCode raw))"
proof -
  assume ne: "cleanTokenCode raw \<noteq> []"
  then have "dropWhile trimmed (rev (dropWhile trimmed raw)) \<noteq> []"
    by (simp add: cleanTokenCode_alt)
  then have "\<not> trimmed (hd (dropWhile trimmed (rev (dropWhile trimmed raw))))"
    by (rule hd_dropWhile)
  then show ?thesis using ne by (simp add: cleanTokenCode_alt last_rev)
qed

lemma cleanTokenCode_hd: "cleanTokenCode raw \<noteq> [] \<Longrightarrow> \<not> trimmed (hd (cleanTokenCode raw))"
proof -
  assume ne: "cleanTokenCode raw \<noteq> []"
  have d: "dropWhile trimmed raw = cleanTokenCode raw @ rev (takeWhile trimmed (rev (dropWhile trimmed raw)))"
    unfolding cleanTokenCode_alt by (rule dropWhile_split_right)
  have dne: "dropWhile trimmed raw \<noteq> []"
  proof
    assume a: "dropWhile trimmed raw = []"
    have "cleanTokenCode raw = []" unfolding cleanTokenCode_alt a by simp
    with ne show False by simp
  qed
  have "hd (dropWhile trimmed raw) = hd (cleanTokenCode raw)"
    using ne by (subst d) simp
  moreover have "\<not> trimmed (hd (dropWhile trimmed raw))" using dne by (rule hd_dropWhile)
  ultimately show ?thesis by simp
qed

lemma dropWhile_all: "list_all P xs \<Longrightarrow> dropWhile P (xs @ ys) = dropWhile P ys"
  by (induction xs) auto

lemma dropWhile_all_Nil: "list_all P xs \<Longrightarrow> dropWhile P xs = []"
  by (induction xs) auto

lemma dropWhile_hd_self: "xs \<noteq> [] \<Longrightarrow> \<not> P (hd xs) \<Longrightarrow> dropWhile P xs = xs"
  by (cases xs) auto

lemma dropWhile_rev_suffix:
  "list_all P suf \<Longrightarrow> dropWhile P (rev (dropWhile P (t @ suf))) = dropWhile P (rev (dropWhile P t))"
proof (induction t)
  case Nil
  then show ?case by (simp add: dropWhile_all_Nil)
next
  case (Cons c t)
  show ?case
  proof (cases "P c")
    case True
    then show ?thesis using Cons by simp
  next
    case False
    have "list_all P (rev suf)" using Cons.prems by (simp add: list_all_iff)
    then show ?thesis using False by (simp add: dropWhile_all)
  qed
qed

lemma cleanTokenCode_invariant:
  "list_all trimmed pre \<Longrightarrow> list_all trimmed suf \<Longrightarrow> cleanTokenCode (pre @ raw @ suf) = cleanTokenCode raw"
  by (simp add: cleanTokenCode_alt dropWhile_all dropWhile_rev_suffix)

lemma cleanTokenCode_fixed:
  "raw = [] \<or> (\<not> trimmed (hd raw) \<and> \<not> trimmed (last raw)) \<Longrightarrow> cleanTokenCode raw = raw"
proof (cases "raw = []")
  case True
  then show ?thesis by (simp add: cleanTokenCode_alt)
next
  case False
  assume "raw = [] \<or> (\<not> trimmed (hd raw) \<and> \<not> trimmed (last raw))"
  with False have h: "\<not> trimmed (hd raw)" and l: "\<not> trimmed (last raw)" by auto
  have 1: "dropWhile trimmed raw = raw" using False h by (rule dropWhile_hd_self)
  have "\<not> trimmed (hd (rev raw))" using l False by (simp add: hd_rev)
  then have 2: "dropWhile trimmed (rev raw) = rev raw" using False by (intro dropWhile_hd_self) auto
  show ?thesis by (simp add: cleanTokenCode_alt 1 2)
qed

lemma cleanTokenCode_idem: "cleanTokenCode (cleanTokenCode raw) = cleanTokenCode raw"
proof (rule cleanTokenCode_fixed)
  show "cleanTokenCode raw = [] \<or> (\<not> trimmed (hd (cleanTokenCode raw)) \<and> \<not> trimmed (last (cleanTokenCode raw)))"
    using cleanTokenCode_hd [of raw] cleanTokenCode_last [of raw] by blast
qed

lemma getTokenCode_exec:
  "mfaExec cfg \<noteq> [] \<Longrightarrow>
   exec_Output w (trace s @ [Stdout (''Obtaining mfa token for: '' @ tokenSerialNumber cfg @ [LF])])
       ''/bin/sh'' [''-c'', mfaExec cfg] = Inr raw \<Longrightarrow>
   fst (getTokenCode w cfg s) = Return (cleanTokenCode raw)"
  by (simp add: getTokenCode_def thenDo_def fetchTokenCode_def Let_def emit_def ret_def)

lemma getTokenCode_prompt:
  "mfaExec cfg = [] \<Longrightarrow>
   stdin_ReadString w (trace s @ [Stdout (''Enter mfa token for '' @ tokenSerialNumber cfg @ '': '')]) = Inr raw \<Longrightarrow>
   fst (getTokenCode w cfg s) = Return (cleanTokenCode raw)"
  by (simp add: getTokenCode_def thenDo_def askForTokenCode_def Let_def emit_def ret_def)

text \<open>
  C4, as the code has it. \<open>cleanTokenCode\<close> strips the leading and trailing spaces,
  carriage returns and line feeds of the raw token, and nothing else: the raw string is
  the code with only such characters before and after it, and the code neither begins
  nor ends with one. Two raw strings that differ only in leading and trailing spaces,
  carriage returns and line feeds give the same code. The code that \<open>getTokenCode\<close>
  returns is the cleaned output of the MFA command, or the cleaned line read at the
  prompt.
\<close>

theorem C4_token_code_trimmed:
  "(\<exists>pre suf. raw = pre @ cleanTokenCode raw @ suf \<and> list_all trimmed pre \<and> list_all trimmed suf)
   \<and> (cleanTokenCode raw \<noteq> [] \<longrightarrow>
        \<not> trimmed (hd (cleanTokenCode raw)) \<and> \<not> trimmed (last (cleanTokenCode raw)))
   \<and> (list_all trimmed pre' \<and> list_all trimmed suf' \<longrightarrow>
        cleanTokenCode (pre' @ raw @ suf') = cleanTokenCode raw)
   \<and> (mfaExec cfg \<noteq> [] \<and>
        exec_Output w (trace s @ [Stdout (''Obtaining mfa token for: '' @ tokenSerialNumber cfg @ [LF])])
          ''/bin/sh'' [''-c'', mfaExec cfg] = Inr raw \<longrightarrow>
        fst (getTokenCode w cfg s) = Return (cleanTokenCode raw))
   \<and> (mfaExec cfg = [] \<and>
        stdin_ReadString w (trace s @ [Stdout (''Enter mfa token for '' @ tokenSerialNumber cfg @ '': '')])
          = Inr raw \<longrightarrow>
        fst (getTokenCode w cfg s) = Return (cleanTokenCode raw))"
  using cleanTokenCode_decomp [of raw] cleanTokenCode_hd [of raw] cleanTokenCode_last [of raw]
    cleanTokenCode_invariant [of pre' suf' raw] getTokenCode_exec [of cfg w s raw]
    getTokenCode_prompt [of cfg w s raw]
  by blast

theorem C4_token_code_trimmed_witness:
  "cleanTokenCode (''123456'' @ [LF]) \<noteq> []
   \<and> hd (cleanTokenCode (''123456'' @ [LF])) = CHR ''1''
   \<and> list_all trimmed '' '' \<and> list_all trimmed [CR]
   \<and> cleanTokenCode ('' '' @ (''123456'' @ [LF]) @ [CR]) = cleanTokenCode (''123456'' @ [LF])
   \<and> mfaExec cfg_mfa \<noteq> []
   \<and> exec_Output world_ok
        (trace state0 @ [Stdout (''Obtaining mfa token for: '' @ tokenSerialNumber cfg_mfa @ [LF])])
        ''/bin/sh'' [''-c'', mfaExec cfg_mfa] = Inr (''123456'' @ [LF])
   \<and> fst (getTokenCode world_ok cfg_mfa state0) = Return ''123456''"
  using C4_token_code_trimmed [of "''123456'' @ [LF]" "'' ''" "[CR]" cfg_mfa world_ok state0]
  by (simp add: cleanTokenCode_def strings_Trim_def trimmed_def LF_def CR_def cfg_mfa_def
      world_ok_def)

text \<open>
  C4 as the claim words it fails: a tab is whitespace, and \<open>cleanTokenCode\<close> leaves
  it in place. The raw strings \<open>"\t123456\n"\<close> and \<open>"123456\n"\<close> differ only in
  leading whitespace and give two different codes, the first of which begins with
  whitespace.
\<close>

theorem C4_tab_not_stripped_counterexample:
  "cleanTokenCode (TAB # ''123456'' @ [LF]) = TAB # ''123456''
   \<and> cleanTokenCode (''123456'' @ [LF]) = ''123456''"
  by (simp add: cleanTokenCode_def strings_Trim_def TAB_def LF_def CR_def)

text \<open>
  C10. The derivation of the role-session name never fails: the split of any ARN on
  \<open>/\<close> has at least one element, so the read at index \<open>len(parts)-1\<close> is in range and
  the derivation returns a name; for an ARN without \<open>/\<close> the name is the whole ARN.
\<close>

theorem C10_role_session_name_total:
  "length (strings_Split arn (CHR ''/'')) \<ge> 1
   \<and> length (strings_Split arn (CHR ''/'')) - 1 < length (strings_Split arn (CHR ''/''))
   \<and> roleSessionNameOf arn
       = Return (strings_Split arn (CHR ''/'') ! (length (strings_Split arn (CHR ''/'')) - 1))
   \<and> (CHR ''/'' \<notin> set arn \<longrightarrow> roleSessionNameOf arn = Return arn)"
  by (simp add: roleSessionNameOf_def Let_def length_strings_Split strings_Split_no_sep
    strings_Split_not_Nil)

theorem C10_role_session_name_total_witness:
  "CHR ''/'' \<notin> set ''alice'' \<and> roleSessionNameOf ''alice'' = Return ''alice''"
  using C10_role_session_name_total [of "''alice''"] by simp

subsection \<open>What each function adds to the trace\<close>

lemma emitsD: "emits P f \<Longrightarrow> f s = (out, s') \<Longrightarrow> \<exists>evs. trace s' = trace s @ evs \<and> list_all P evs"
  by (metis emits_def snd_conv)

lemma emits_ret: "emits P (ret x)"
  by (simp add: emits_def ret_def)

lemma emits_thenDo:
  assumes "emits P m" and "\<And>x. emits P (f x)"
  shows "emits P (thenDo m f)"
  unfolding emits_def
proof
  fix s
  obtain out s1 where m: "m s = (out, s1)" by (cases "m s")
  from emitsD [OF assms(1) m] obtain evs1 where e1: "trace s1 = trace s @ evs1" "list_all P evs1"
    by blast
  show "\<exists>evs. trace (snd (thenDo m f s)) = trace s @ evs \<and> list_all P evs"
  proof (cases out)
    case (Return x)
    obtain out2 s2 where f: "f x s1 = (out2, s2)" by (cases "f x s1")
    from emitsD [OF assms(2) f] obtain evs2 where e2: "trace s2 = trace s1 @ evs2" "list_all P evs2"
      by blast
    have "trace (snd (thenDo m f s)) = trace s @ (evs1 @ evs2)"
      using m f Return e1 e2 by (simp add: thenDo_def)
    moreover have "list_all P (evs1 @ evs2)" using e1 e2 by simp
    ultimately show ?thesis by blast
  next
    case (os_Exit c)
    then show ?thesis using m e1 by (auto simp: thenDo_def)
  next
    case (Panic e)
    then show ?thesis using m e1 by (auto simp: thenDo_def)
  qed
qed

lemma emits_if: "emits P f \<Longrightarrow> emits P g \<Longrightarrow> emits P (if b then f else g)"
  by simp

lemma emits_die: "P (Stderr (msg @ '': '' @ err @ [LF])) \<Longrightarrow> emits P (die msg err)"
  by (simp add: emits_def die_def emit_def)

lemma emits_getCallerId:
  "(\<And>x. P (Stderr x)) \<Longrightarrow> P (STS_GetCallerIdentity svc) \<Longrightarrow> emits P (getCallerId w svc)"
  by (auto simp: emits_def getCallerId_def die_def emit_def split: sum.splits)

lemma emits_fetchTokenCode:
  "(\<And>x. P (Stderr x)) \<Longrightarrow> (\<And>x. P (Stdout x)) \<Longrightarrow> (\<And>c a. P (Exec_Command c a)) \<Longrightarrow> emits P (fetchTokenCode w sn cmd)"
  by (auto simp: emits_def fetchTokenCode_def die_def emit_def Let_def split: sum.splits)

lemma emits_askForTokenCode:
  "(\<And>x. P (Stderr x)) \<Longrightarrow> (\<And>x. P (Stdout x)) \<Longrightarrow> P Stdin_ReadString \<Longrightarrow> emits P (askForTokenCode w sn)"
  by (auto simp: emits_def askForTokenCode_def die_def emit_def Let_def split: sum.splits)

lemma emits_getTokenCode:
  "(\<And>x. P (Stderr x)) \<Longrightarrow> (\<And>x. P (Stdout x)) \<Longrightarrow> (\<And>c a. P (Exec_Command c a)) \<Longrightarrow> P Stdin_ReadString
     \<Longrightarrow> emits P (getTokenCode w cfg)"
  unfolding getTokenCode_def
  by (intro emits_thenDo emits_if emits_ret emits_fetchTokenCode emits_askForTokenCode)

lemma emits_session_Must_New: "P (Session_New opts) \<Longrightarrow> emits P (session_Must_New w opts)"
  by (auto simp: emits_def session_Must_New_def emit_def split: sum.splits)

lemma emits_writeProfileOrDie:
  "(\<And>x. P (Stderr x)) \<Longrightarrow> P (PW_WriteProfile cred name reg) \<Longrightarrow> emits P (writeProfileOrDie w pw cred name reg)"
  by (auto simp: emits_def writeProfileOrDie_def die_def emit_def split: option.splits)

lemma emits_assumeRole:
  "(\<And>x. P (Stderr x)) \<Longrightarrow> P (STS_AssumeRole svc a n d) \<Longrightarrow> emits P (assumeRole w svc a n d)"
  by (auto simp: emits_def assumeRole_def die_def emit_def split: sum.splits)

lemma emits_deriveRoleSessionName: "emits P (deriveRoleSessionName u)"
  by (auto simp: emits_def deriveRoleSessionName_def split: option.splits)

lemma emits_ensureTargetProfile:
  "(\<And>x. P (Stderr x)) \<Longrightarrow> P (STS_GetCallerIdentity sess) \<Longrightarrow> (\<And>a n d. P (STS_AssumeRole sess a n d))
    \<Longrightarrow> (\<And>c. P (PW_WriteProfile c (targetProfile cfg) (sess_Config_Region sess)))
    \<Longrightarrow> emits P (ensureTargetProfile w cfg pw sess)"
  unfolding ensureTargetProfile_def
  by (intro emits_thenDo emits_getCallerId emits_deriveRoleSessionName emits_assumeRole emits_writeProfileOrDie)

lemma emits_writeProfileToFile:
  "(\<And>x. P (Stderr x)) \<Longrightarrow> (\<And>x. P (OS_Create x)) \<Longrightarrow> (\<And>x y. P (File_Write x y)) \<Longrightarrow> emits P (writeProfileToFile w cfg)"
  by (auto simp: emits_def writeProfileToFile_def file_Fprintf_def die_def emit_def Let_def
      split: option.splits)

lemma ensureTargetProfile_identified:
  assumes "sts_GetCallerIdentity w (trace s) sess = Inr output" and "Arn output = Some arn"
  shows "ensureTargetProfile w cfg pw sess s =
           thenDo (assumeRole w sess (config_GetRoleArn w cfg) (lastSegment arn) (targetDuration cfg))
             (\<lambda>cred. writeProfileOrDie w pw cred (targetProfile cfg) (sess_Config_Region sess))
             (emit (STS_GetCallerIdentity sess) s)"
  using assms
  by (simp add: ensureTargetProfile_def getCallerId_def thenDo_def deriveRoleSessionName_def
      roleSessionNameOf_eq)

lemma trace_emit: "trace (emit e s) = trace s @ [e]"
  by (simp add: emit_def)

lemma assumeRole_then_write_trace:
  "\<exists>rest. trace (snd (thenDo (assumeRole w sess a n d)
             (\<lambda>cred. writeProfileOrDie w pw cred name reg) s))
       = trace s @ STS_AssumeRole sess a n d # rest \<and> list_all (\<lambda>e. \<not> is_AssumeRole e) rest"
  by (auto simp: thenDo_def assumeRole_def writeProfileOrDie_def die_def trace_emit
      split: sum.splits option.splits)

text \<open>
  C3. When the identity lookup of \<open>ensureTargetProfile\<close> returns an ARN, the call
  that follows it is the one assume-role call of the function, and the role-session name
  it passes is the last segment of that ARN: the last element of the ARN split on
  \<open>/\<close>, which is what lines 134 and 135 compute. For an ARN that ends in
  \<open>/alice\<close> the name is \<open>alice\<close>.
\<close>

theorem C3_role_session_name_last_segment:
  assumes "sts_GetCallerIdentity w (trace s) sess = Inr output" and "Arn output = Some arn"
  shows "(\<exists>rest. trace (snd (ensureTargetProfile w cfg pw sess s))
            = trace s @ [STS_GetCallerIdentity sess,
                 STS_AssumeRole sess (config_GetRoleArn w cfg) (lastSegment arn) (targetDuration cfg)] @ rest
            \<and> list_all (\<lambda>e. \<not> is_AssumeRole e) rest)
       \<and> lastSegment arn = last (strings_Split arn (CHR ''/''))
       \<and> roleSessionNameOf arn = Return (lastSegment arn)
       \<and> (\<forall>p. arn = p @ ''/alice'' \<longrightarrow> lastSegment arn = ''alice'')"
proof (intro conjI)
  show "\<exists>rest. trace (snd (ensureTargetProfile w cfg pw sess s))
            = trace s @ [STS_GetCallerIdentity sess,
                 STS_AssumeRole sess (config_GetRoleArn w cfg) (lastSegment arn) (targetDuration cfg)] @ rest
            \<and> list_all (\<lambda>e. \<not> is_AssumeRole e) rest"
    using assumeRole_then_write_trace [of w sess "config_GetRoleArn w cfg" "lastSegment arn"
        "targetDuration cfg" pw "targetProfile cfg" "sess_Config_Region sess" "emit (STS_GetCallerIdentity sess) s"]
    by (simp add: ensureTargetProfile_identified [OF assms] trace_emit)
  show "lastSegment arn = last (strings_Split arn (CHR ''/''))"
    by (simp add: lastSegment_def last_strings_Split)
  show "roleSessionNameOf arn = Return (lastSegment arn)"
    by (rule roleSessionNameOf_eq)
  show "\<forall>p. arn = p @ ''/alice'' \<longrightarrow> lastSegment arn = ''alice''"
    using lastSegment_append_slash [of "''alice''"] by auto
qed

theorem C3_role_session_name_last_segment_witness:
  "sts_GetCallerIdentity world_ok (trace state0) session_base = Inr alice_identity
   \<and> Arn alice_identity = Some (''arn:aws:iam::123456789012:user'' @ ''/alice'')
   \<and> trace (snd (ensureTargetProfile world_ok cfg_plain ProfileWriter session_base state0))
      = [STS_GetCallerIdentity session_base,
         STS_AssumeRole session_base ''arn:aws:iam::210987654321:role/admin'' ''alice'' 3600,
         PW_WriteProfile (Some role_cred) ''target'' (Some ''eu-west-1'')]"
  using C3_role_session_name_last_segment [of world_ok state0 session_base alice_identity
      "''arn:aws:iam::123456789012:user/alice''" cfg_plain ProfileWriter]
  by (simp add: run_defs example_defs)

subsection \<open>The session validity check\<close>

text \<open>
  C6, as the code has it. When the SDK can build the session for the profile and
  region, \<open>validateSessionToken\<close> returns true exactly when the identity lookup
  succeeds and false exactly when it fails; whatever the error of the lookup is, the
  function returns false after the same two calls, writes nothing and does not end the
  process. When the SDK cannot build the session, \<open>session.Must\<close> panics, and the
  function returns neither true nor false.
\<close>

theorem C6_validity_check_boolean_gate:
  "(session_NewSessionWithOptions w (trace s) opts = Inr r \<longrightarrow>
      (fst (validateSessionToken w opts s) = Return True \<longleftrightarrow>
         (\<exists>output. sts_GetCallerIdentity w (trace s @ [Session_New opts])
              \<lparr>sess_Options = opts, sess_Config_Region = r\<rparr> = Inr output))
    \<and> (fst (validateSessionToken w opts s) = Return False \<longleftrightarrow>
         (\<exists>err. sts_GetCallerIdentity w (trace s @ [Session_New opts])
              \<lparr>sess_Options = opts, sess_Config_Region = r\<rparr> = Inl err))
    \<and> snd (validateSessionToken w opts s)
         = s\<lparr>trace := trace s @ [Session_New opts,
               STS_GetCallerIdentity \<lparr>sess_Options = opts, sess_Config_Region = r\<rparr>]\<rparr>)
   \<and> (session_NewSessionWithOptions w (trace s) opts = Inl e \<longrightarrow>
        validateSessionToken w opts s = (Panic e, s\<lparr>trace := trace s @ [Session_New opts]\<rparr>))"
  by (auto simp: validateSessionToken_def thenDo_def session_Must_New_def emit_def split: sum.splits)

theorem C6_validity_check_boolean_gate_witness:
  "session_NewSessionWithOptions world_expired (trace state0) (getIntermediateSessionOptions cfg_mfa)
     = Inr (Some ''eu-west-1'')
   \<and> sts_GetCallerIdentity world_expired
        (trace state0 @ [Session_New (getIntermediateSessionOptions cfg_mfa)]) session_mfa
        = Inl ''ExpiredToken: the security token included in the request is expired''
   \<and> validateSessionToken world_expired (getIntermediateSessionOptions cfg_mfa) state0
        = (Return False,
           \<lparr>trace = [Session_New (getIntermediateSessionOptions cfg_mfa), STS_GetCallerIdentity session_mfa],
              files = Map.empty\<rparr>)"
  using C6_validity_check_boolean_gate [of world_expired state0 "getIntermediateSessionOptions cfg_mfa"
      "Some ''eu-west-1''"]
  by (simp add: run_defs example_defs)

text \<open>
  C6 as the claim words it fails: a shared credentials file that cannot be loaded is a
  cause of failure that is not mapped to false. The check panics and the process ends.
\<close>

theorem C6_session_must_panics_counterexample:
  "validateSessionToken world_nosession (getIntermediateSessionOptions cfg_mfa) state0
     = (Panic ''SharedConfigLoadError: failed to load config file'',
        \<lparr>trace = [Session_New \<lparr>Config_Region = Some ''eu-west-1'', Profile = ''session''\<rparr>],
           files = Map.empty\<rparr>)"
  by (simp add: run_defs example_defs world_nosession_def)

subsection \<open>Start-up\<close>

text \<open>
  C9. If \<open>NewProfileWriter\<close> fails, \<open>main\<close> ends the process with exit status 1
  however many passes of the loop it is allowed, and all it has done by then is start-up:
  no identity lookup, no session-token call, no role assumption, no MFA command and no
  read at the prompt. After a configuration that passes validation, the run consists of
  the failed attempt to open the profile store and the error message.
\<close>

theorem C9_profile_writer_failure_aborts_first:
  assumes "NewProfileWriter w (trace s) = Inl err"
  shows "fst (main n w cfg s) = Some (os_Exit 1)
     \<and> (\<exists>evs. trace (snd (main n w cfg s)) = trace s @ evs
            \<and> list_all (\<lambda>e. \<not> is_provider_call e \<and> \<not> is_token_acquisition e \<and> is_startup e) evs)
     \<and> (config_Validate w cfg = None \<longrightarrow>
           trace (snd (main n w cfg s))
             = trace s @ [PW_New, Stderr (''Error initializing profile writer: '' @ err @ [LF])])"
  using assms by (auto simp: main_def die_def emit_def split: option.splits)

theorem C9_profile_writer_failure_aborts_first_witness:
  "NewProfileWriter world_nowriter (trace state0)
     = Inl ''open /home/alice/.aws/credentials: permission denied''
   \<and> config_Validate world_nowriter cfg_mfa = None
   \<and> main 5 world_nowriter cfg_mfa state0
     = (Some (os_Exit 1),
        \<lparr>trace = [PW_New,
           Stderr (''Error initializing profile writer: ''
                   @ ''open /home/alice/.aws/credentials: permission denied'' @ [LF])],
           files = Map.empty\<rparr>)"
  using C9_profile_writer_failure_aborts_first [of world_nowriter state0
      "''open /home/alice/.aws/credentials: permission denied''" 5 cfg_mfa]
  by (simp add: world_nowriter_def world_ok_def state0_def main_def die_def emit_def)

subsection \<open>The export file\<close>









subsection \<open>The shape of one pass of the loop\<close>

lemma main_loop_body_rest:
  "main_loop_body w cfg bp pw =
     thenDo (if tokenSerialNumber cfg \<noteq> [] then ensureSessionTokenProfile w cfg pw else ret ())
       (\<lambda>_. main_loop_rest w cfg bp pw)"
  by (simp add: main_loop_body_def main_loop_rest_def)

lemma thenDo_cases:
  assumes "thenDo m f s = (out, s')"
  obtains (ok) x s1 where "m s = (Return x, s1)" and "f x s1 = (out, s')"
        | (exit) c where "m s = (os_Exit c, s')" and "out = os_Exit c"
        | (panic) e where "m s = (Panic e, s')" and "out = Panic e"
proof -
  obtain o1 s1 where m: "m s = (o1, s1)" by (cases "m s")
  show thesis
  proof (cases o1)
    case (Return x)
    then show ?thesis using assms m ok by (simp add: thenDo_def)
  next
    case (os_Exit c)
    then show ?thesis using assms m exit by (simp add: thenDo_def)
  next
    case (Panic e)
    then show ?thesis using assms m panic by (simp add: thenDo_def)
  qed
qed

lemma unique_split:
  "list_all (\<lambda>e. \<not> P e) xs \<Longrightarrow> list_all (\<lambda>e. \<not> P e) ys \<Longrightarrow> P b \<Longrightarrow>
     xs @ a # ys = pre @ b # post \<Longrightarrow> pre = xs \<and> b = a \<and> post = ys"
proof (induction xs arbitrary: pre)
  case Nil
  then show ?case by (cases pre) (auto simp: list_all_iff)
next
  case (Cons x xs)
  then show ?case by (cases pre) (auto simp: list_all_iff)
qed

lemma clean_prefix_split:
  "list_all (\<lambda>e. \<not> P e) xs \<Longrightarrow> P b \<Longrightarrow> xs @ ys = pre @ b # post \<Longrightarrow>
     \<exists>pre'. pre = xs @ pre' \<and> ys = pre' @ b # post"
proof (induction xs arbitrary: pre)
  case Nil
  then show ?case by simp
next
  case (Cons x xs)
  then show ?case by (cases pre) auto
qed

lemma assumeRole_write_shape:
  assumes "thenDo (assumeRole w sess a n d) (\<lambda>cred. writeProfileOrDie w pw cred name reg) s = (out, s')"
  shows "\<exists>ys. trace s' = trace s @ STS_AssumeRole sess a n d # ys
           \<and> list_all (\<lambda>e. \<not> is_AssumeRole e) ys
           \<and> (case sts_AssumeRole w (trace s) sess a n d of
                 Inl e \<Rightarrow> ys = [Stderr (''Error assuming role: '' @ e @ [LF])] \<and> out = os_Exit 1
               | Inr cred \<Rightarrow>
                  (case pw_WriteProfile w (trace s @ [STS_AssumeRole sess a n d]) pw cred name reg of
                     None \<Rightarrow> ys = [PW_WriteProfile cred name reg] \<and> out = Return ()
                   | Some e \<Rightarrow> ys = [PW_WriteProfile cred name reg, Stderr (''Error writing profile: '' @ e @ [LF])]
                        \<and> out = os_Exit 1))"
  using assms
  by (auto simp: thenDo_def assumeRole_def writeProfileOrDie_def die_def emit_def
      split: sum.splits option.splits)

lemma ensureTargetProfile_shape:
  assumes "ensureTargetProfile w cfg pw sess s = (out, s')"
  shows "(\<exists>ys. trace s' = trace s @ STS_GetCallerIdentity sess # ys \<and> list_all (\<lambda>e. \<not> is_AssumeRole e) ys
            \<and> list_all (\<lambda>e. \<not> is_WriteProfile e) ys \<and> out \<noteq> Return ())
       \<or> (\<exists>output arn ys. sts_GetCallerIdentity w (trace s) sess = Inr output \<and> Arn output = Some arn
            \<and> trace s' = trace s @ [STS_GetCallerIdentity sess]
                 @ STS_AssumeRole sess (config_GetRoleArn w cfg) (lastSegment arn) (targetDuration cfg) # ys
            \<and> list_all (\<lambda>e. \<not> is_AssumeRole e) ys
            \<and> (case sts_AssumeRole w (trace s @ [STS_GetCallerIdentity sess]) sess (config_GetRoleArn w cfg)
                       (lastSegment arn) (targetDuration cfg) of
                 Inl e \<Rightarrow> ys = [Stderr (''Error assuming role: '' @ e @ [LF])] \<and> out = os_Exit 1
               | Inr cred \<Rightarrow>
                  (case pw_WriteProfile w (trace s @ [STS_GetCallerIdentity sess,
                          STS_AssumeRole sess (config_GetRoleArn w cfg) (lastSegment arn) (targetDuration cfg)])
                        pw cred (targetProfile cfg) (sess_Config_Region sess) of
                     None \<Rightarrow> ys = [PW_WriteProfile cred (targetProfile cfg) (sess_Config_Region sess)] \<and> out = Return ()
                   | Some e \<Rightarrow> ys = [PW_WriteProfile cred (targetProfile cfg) (sess_Config_Region sess),
                                    Stderr (''Error writing profile: '' @ e @ [LF])] \<and> out = os_Exit 1)))"
proof (cases "sts_GetCallerIdentity w (trace s) sess")
  case (Inl e)
  then have "?thesis" using assms
    by (auto simp: ensureTargetProfile_def getCallerId_def thenDo_def die_def emit_def)
  then show ?thesis .
next
  case (Inr idn)
  show ?thesis
  proof (cases "Arn idn")
    case None
    then show ?thesis using assms Inr
      by (auto simp: ensureTargetProfile_def getCallerId_def thenDo_def deriveRoleSessionName_def emit_def)
  next
    case (Some arn)
    have e: "thenDo (assumeRole w sess (config_GetRoleArn w cfg) (lastSegment arn) (targetDuration cfg))
             (\<lambda>cred. writeProfileOrDie w pw cred (targetProfile cfg) (sess_Config_Region sess))
             (emit (STS_GetCallerIdentity sess) s) = (out, s')"
      using assms ensureTargetProfile_identified [OF Inr Some] by simp
    from assumeRole_write_shape [OF e] Inr Some show ?thesis
      by (simp add: trace_emit cong: sum.case_cong option.case_cong)
  qed
qed

lemma export_footprint:
  assumes "(if exportProfile cfg then writeProfileToFile w cfg else ret ()) s = (out, s')"
  shows "\<exists>evs. trace s' = trace s @ evs
           \<and> list_all (\<lambda>e. \<not> is_AssumeRole e \<and> \<not> is_WriteProfile e \<and> \<not> is_GetSessionToken e) evs"
proof -
  have "emits (\<lambda>e. \<not> is_AssumeRole e \<and> \<not> is_WriteProfile e \<and> \<not> is_GetSessionToken e)
          (if exportProfile cfg then writeProfileToFile w cfg else ret ())"
    by (intro emits_if emits_writeProfileToFile emits_ret) simp_all
  from emitsD [OF this assms] show ?thesis .
qed

lemma mergeRegion_Some:
  "mergeRegion (Some reg) found \<noteq> None"
  "reg \<noteq> [] \<Longrightarrow> mergeRegion (Some reg) found = Some reg"
  "found = None \<or> found = Some [] \<Longrightarrow> mergeRegion (Some reg) found = Some reg"
  by (auto simp: mergeRegion_def split: option.splits)

lemma session_region_of_options:
  assumes "session_NewSessionWithOptions w h (newSessionOptions prof reg) = Inr r"
  shows "r \<noteq> None" and "reg \<noteq> [] \<Longrightarrow> r = Some reg"
    and "\<exists>found. session_loadConfig w h (newSessionOptions prof reg) = Inr found
           \<and> r = mergeRegion (Some reg) found"
proof -
  from assms obtain found where
    f: "session_loadConfig w h (newSessionOptions prof reg) = Inr found"
       "r = mergeRegion (Some reg) found"
    by (cases "session_loadConfig w h (newSessionOptions prof reg)")
       (auto simp: session_NewSessionWithOptions_def newSessionOptions_def)
  show "r \<noteq> None" using f(2) mergeRegion_Some(1) by blast
  show "reg \<noteq> [] \<Longrightarrow> r = Some reg" using f(2) mergeRegion_Some(2) by blast
  show "\<exists>found. session_loadConfig w h (newSessionOptions prof reg) = Inr found
                    \<and> r = mergeRegion (Some reg) found"
    using f by blast
qed

lemma main_loop_rest_shape:
  assumes "main_loop_rest w cfg bp pw s = (out, s')"
  shows "\<exists>evs. trace s' = trace s @ evs \<and> list_all (\<lambda>e. \<not> is_GetSessionToken e) evs \<and>
     ((list_all (\<lambda>e. \<not> is_AssumeRole e) evs \<and> list_all (\<lambda>e. \<not> is_WriteProfile e) evs \<and> out \<noteq> Return ())
      \<or> (\<exists>r arn ys.
            session_NewSessionWithOptions w (trace s) (newSessionOptions bp (region cfg)) = Inr r
          \<and> evs = [Session_New (newSessionOptions bp (region cfg)),
                   STS_GetCallerIdentity \<lparr>sess_Options = newSessionOptions bp (region cfg), sess_Config_Region = r\<rparr>]
                  @ STS_AssumeRole \<lparr>sess_Options = newSessionOptions bp (region cfg), sess_Config_Region = r\<rparr>
                      (config_GetRoleArn w cfg) (lastSegment arn) (targetDuration cfg) # ys
          \<and> list_all (\<lambda>e. \<not> is_AssumeRole e) ys
          \<and> after_AssumeRole w cfg pw
               (trace s @ [Session_New (newSessionOptions bp (region cfg)),
                   STS_GetCallerIdentity \<lparr>sess_Options = newSessionOptions bp (region cfg), sess_Config_Region = r\<rparr>])
               \<lparr>sess_Options = newSessionOptions bp (region cfg), sess_Config_Region = r\<rparr>
               (config_GetRoleArn w cfg) (lastSegment arn) (targetDuration cfg) ys))"
proof -
  let ?o = "newSessionOptions bp (region cfg)"
  from assms have a: "thenDo (session_Must_New w ?o)
       (\<lambda>sess. thenDo (ensureTargetProfile w cfg pw sess)
         (\<lambda>_. if exportProfile cfg then writeProfileToFile w cfg else ret ())) s = (out, s')"
    by (simp add: main_loop_rest_def)
  show ?thesis
  proof (cases "session_NewSessionWithOptions w (trace s) ?o")
    case (Inl e)
    then have "out = Panic e" "trace s' = trace s @ [Session_New ?o]"
      using a by (auto simp: thenDo_def session_Must_New_def emit_def)
    then show ?thesis by auto
  next
    case (Inr r)
    let ?sess = "\<lparr>sess_Options = ?o, sess_Config_Region = r\<rparr>"
    let ?s1 = "emit (Session_New ?o) s"
    from Inr a have b: "thenDo (ensureTargetProfile w cfg pw ?sess)
         (\<lambda>_. if exportProfile cfg then writeProfileToFile w cfg else ret ()) ?s1 = (out, s')"
      by (simp add: thenDo_def session_Must_New_def)
    obtain outT sT outE where
      t: "ensureTargetProfile w cfg pw ?sess ?s1 = (outT, sT)"
      and e: "(outT = Return () \<and> (if exportProfile cfg then writeProfileToFile w cfg else ret ()) sT = (out, s'))
              \<or> (outT \<noteq> Return () \<and> out = outT \<and> s' = sT)"
      using b by (cases rule: thenDo_cases) auto
    from e obtain evsE where
      ev: "trace s' = trace sT @ evsE"
          "list_all (\<lambda>e. \<not> is_AssumeRole e \<and> \<not> is_WriteProfile e \<and> \<not> is_GetSessionToken e) evsE"
          "outT \<noteq> Return () \<longrightarrow> out = outT \<and> evsE = []"
      using export_footprint [of cfg w sT out s'] by auto
    have g: "emits (\<lambda>e. \<not> is_GetSessionToken e) (ensureTargetProfile w cfg pw ?sess)"
      by (intro emits_ensureTargetProfile) simp_all
    from emitsD [OF g t] obtain evsT where
      gt: "trace sT = trace ?s1 @ evsT" "list_all (\<lambda>e. \<not> is_GetSessionToken e) evsT" by blast
    from ensureTargetProfile_shape [OF t] show ?thesis
    proof
      assume "\<exists>ys. trace sT = trace ?s1 @ STS_GetCallerIdentity ?sess # ys
                \<and> list_all (\<lambda>e. \<not> is_AssumeRole e) ys
                \<and> list_all (\<lambda>e. \<not> is_WriteProfile e) ys \<and> outT \<noteq> Return ()"
      then obtain ys where ys: "trace sT = trace ?s1 @ STS_GetCallerIdentity ?sess # ys"
         "list_all (\<lambda>e. \<not> is_AssumeRole e) ys" "list_all (\<lambda>e. \<not> is_WriteProfile e) ys" "outT \<noteq> Return ()"
        by blast
      have "trace s' = trace s @ (Session_New ?o # evsT @ evsE)"
        using ev gt by (simp add: trace_emit)
      moreover have "evsT = STS_GetCallerIdentity ?sess # ys" using ys(1) gt(1) by simp
      ultimately show ?thesis using ys ev gt by (auto simp: list_all_iff)
    next
      assume "\<exists>idn arn ys.
         sts_GetCallerIdentity w (trace ?s1) ?sess = Inr idn \<and> Arn idn = Some arn \<and>
         trace sT = trace ?s1 @ [STS_GetCallerIdentity ?sess] @
              STS_AssumeRole ?sess (config_GetRoleArn w cfg) (lastSegment arn) (targetDuration cfg) # ys \<and>
         list_all (\<lambda>e. \<not> is_AssumeRole e) ys \<and>
         (case sts_AssumeRole w (trace ?s1 @ [STS_GetCallerIdentity ?sess]) ?sess
                (config_GetRoleArn w cfg) (lastSegment arn) (targetDuration cfg) of
            Inl e \<Rightarrow> ys = [Stderr (''Error assuming role: '' @ e @ [LF])] \<and> outT = os_Exit 1
          | Inr cred \<Rightarrow>
              (case pw_WriteProfile w
                     (trace ?s1 @ [STS_GetCallerIdentity ?sess,
                         STS_AssumeRole ?sess (config_GetRoleArn w cfg) (lastSegment arn) (targetDuration cfg)])
                     pw cred (targetProfile cfg) (sess_Config_Region ?sess) of
                 None \<Rightarrow> ys = [PW_WriteProfile cred (targetProfile cfg) (sess_Config_Region ?sess)] \<and> outT = Return ()
               | Some e \<Rightarrow> ys = [PW_WriteProfile cred (targetProfile cfg) (sess_Config_Region ?sess),
                      Stderr (''Error writing profile: '' @ e @ [LF])] \<and> outT = os_Exit 1))"
      then obtain idn arn ys where
        ys: "trace sT = trace ?s1 @ [STS_GetCallerIdentity ?sess] @
              STS_AssumeRole ?sess (config_GetRoleArn w cfg) (lastSegment arn) (targetDuration cfg) # ys"
          "list_all (\<lambda>e. \<not> is_AssumeRole e) ys"
        and c: "(case sts_AssumeRole w (trace ?s1 @ [STS_GetCallerIdentity ?sess]) ?sess
                (config_GetRoleArn w cfg) (lastSegment arn) (targetDuration cfg) of
            Inl e \<Rightarrow> ys = [Stderr (''Error assuming role: '' @ e @ [LF])] \<and> outT = os_Exit 1
          | Inr cred \<Rightarrow>
              (case pw_WriteProfile w
                     (trace ?s1 @ [STS_GetCallerIdentity ?sess,
                         STS_AssumeRole ?sess (config_GetRoleArn w cfg) (lastSegment arn) (targetDuration cfg)])
                     pw cred (targetProfile cfg) (sess_Config_Region ?sess) of
                 None \<Rightarrow> ys = [PW_WriteProfile cred (targetProfile cfg) (sess_Config_Region ?sess)] \<and> outT = Return ()
               | Some e \<Rightarrow> ys = [PW_WriteProfile cred (targetProfile cfg) (sess_Config_Region ?sess),
                      Stderr (''Error writing profile: '' @ e @ [LF])] \<and> outT = os_Exit 1))"
        by blast
      have tr: "trace s' = trace s @ [Session_New ?o, STS_GetCallerIdentity ?sess]
                  @ STS_AssumeRole ?sess (config_GetRoleArn w cfg) (lastSegment arn) (targetDuration cfg) # (ys @ evsE)"
        using ev(1) ys(1) by (simp add: trace_emit)
      have gst: "list_all (\<lambda>e. \<not> is_GetSessionToken e)
                   ([Session_New ?o, STS_GetCallerIdentity ?sess]
                  @ STS_AssumeRole ?sess (config_GetRoleArn w cfg) (lastSegment arn) (targetDuration cfg) # (ys @ evsE))"
        using gt ys(1) ev(2) by (auto simp: list_all_iff)
      have noar: "list_all (\<lambda>e. \<not> is_AssumeRole e) (ys @ evsE)"
        using ys(2) ev(2) by (auto simp: list_all_iff)
      have aft: "after_AssumeRole w cfg pw (trace s @ [Session_New ?o, STS_GetCallerIdentity ?sess]) ?sess
                  (config_GetRoleArn w cfg) (lastSegment arn) (targetDuration cfg) (ys @ evsE)"
        using c ev(2,3) unfolding after_AssumeRole_def
        by (auto simp: trace_emit list_all_iff split: sum.splits option.splits)
      show ?thesis
        using Inr tr gst noar aft by blast
    qed
  qed
qed

lemma emits_validateSessionToken:
  "P (Session_New opts) \<Longrightarrow> (\<And>sess. P (STS_GetCallerIdentity sess)) \<Longrightarrow> emits P (validateSessionToken w opts)"
  by (auto simp: emits_def validateSessionToken_def thenDo_def session_Must_New_def emit_def split: sum.splits)

lemma emits_getSessionToken:
  assumes "\<And>x. P (Stderr x)" "\<And>x. P (Stdout x)" "\<And>c a. P (Exec_Command c a)" "P Stdin_ReadString"
    "P (Session_New opts)" "\<And>sess d n c. P (STS_GetSessionToken sess d n c)"
  shows "emits P (getSessionToken w opts cfg)"
  unfolding getSessionToken_def
proof (intro emits_thenDo emits_session_Must_New emits_getTokenCode assms)
  fix sess tokenCode
  show "emits P (\<lambda>s. case sts_GetSessionToken w (trace s) sess (intermediateDuration cfg)
                   (tokenSerialNumber cfg) tokenCode of
              Inl err \<Rightarrow> die ''Error getting session token'' err
                (emit (STS_GetSessionToken sess (intermediateDuration cfg)
                   (tokenSerialNumber cfg) tokenCode) s)
            | Inr cred \<Rightarrow> (Return cred,
                emit (STS_GetSessionToken sess (intermediateDuration cfg)
                   (tokenSerialNumber cfg) tokenCode) s))"
    using assms by (auto simp: emits_def die_def emit_def split: sum.splits)
qed

lemma emits_ensureSessionTokenProfile:
  assumes "\<And>x. P (Stderr x)" "\<And>x. P (Stdout x)" "\<And>c a. P (Exec_Command c a)" "P Stdin_ReadString"
    "\<And>so. P (Session_New so)" "\<And>sess d n c. P (STS_GetSessionToken sess d n c)"
    "\<And>sess. P (STS_GetCallerIdentity sess)"
    "\<And>c. P (PW_WriteProfile c (intermediateProfile cfg) (Some (region cfg)))"
  shows "emits P (ensureSessionTokenProfile w cfg pw)"
  unfolding ensureSessionTokenProfile_def
proof (intro emits_thenDo emits_validateSessionToken emits_if emits_getSessionToken
    emits_writeProfileOrDie assms)
  show "emits P (\<lambda>s. (Return (),
         emit (Stdout (''Session token for profile '' @ profile cfg @ '' is still valid'' @ [LF])) s))"
    using assms by (simp add: emits_def emit_def)
qed

lemma emits_main_loop_rest:
  assumes "\<And>x. P (Stderr x)" "\<And>so. P (Session_New so)" "\<And>sess. P (STS_GetCallerIdentity sess)"
    "\<And>sess a n d. P (STS_AssumeRole sess a n d)" "\<And>c r. P (PW_WriteProfile c (targetProfile cfg) r)"
    "\<And>x. P (OS_Create x)" "\<And>x y. P (File_Write x y)"
  shows "emits P (main_loop_rest w cfg bp pw)"
  unfolding main_loop_rest_def
  by (intro emits_thenDo emits_session_Must_New emits_ensureTargetProfile emits_if
      emits_writeProfileToFile emits_ret assms)

lemma emits_main_loop_body:
  assumes "\<And>x. P (Stderr x)" "\<And>x. P (Stdout x)" "\<And>c a. P (Exec_Command c a)" "P Stdin_ReadString"
    "\<And>so. P (Session_New so)" "\<And>sess d n c. P (STS_GetSessionToken sess d n c)"
    "\<And>sess. P (STS_GetCallerIdentity sess)" "\<And>c n r. P (PW_WriteProfile c n r)"
    "\<And>sess a n d. P (STS_AssumeRole sess a n d)" 
    "\<And>x. P (OS_Create x)" "\<And>x y. P (File_Write x y)"
  shows "emits P (main_loop_body w cfg bp pw)"
  unfolding main_loop_body_rest
  by (intro emits_thenDo emits_if emits_ensureSessionTokenProfile emits_main_loop_rest emits_ret assms)

lemma intermediate_no_AssumeRole:
  "emits (\<lambda>e. \<not> is_AssumeRole e)
     (if tokenSerialNumber cfg \<noteq> [] then ensureSessionTokenProfile w cfg pw else ret ())"
  by (intro emits_if emits_ensureSessionTokenProfile emits_ret) simp_all

subsection \<open>Role assumption and the target profile\<close>

text \<open>
  C8. A pass of the loop that completes has made a role-assumption call, and in every
  pass a role-assumption call is made on the session built just before it, from the
  configured region and from the intermediate profile when an MFA serial is
  configured, from the base profile otherwise. When the call fails the process prints
  the error and ends; when it succeeds, the next call is the write of the returned
  credentials under the target profile name with \<open>sess.Config.Region\<close>, the region of
  that session, and no other profile is written in the rest of the pass. The region of
  that session is never absent, because the session is built from options that carry
  the configured region: it is the configured region whenever that is not empty, and
  also whenever the environment names no region; so the region written is the
  session's region, and reading it with the configured region as the fallback for an
  absent one gives the same region.
\<close>

theorem C8_role_session_and_target_write:
  assumes "main_loop_body w cfg (main_baseProfile cfg) pw s = (out, s')"
  shows "\<exists>evs. trace s' = trace s @ evs \<and>
     (out = Return () \<longrightarrow> list_ex is_AssumeRole evs) \<and>
     (\<forall>pre sess a n d post. evs = pre @ STS_AssumeRole sess a n d # post \<longrightarrow>
        sess_Options sess
          = \<lparr>Config_Region = Some (region cfg),
             Profile = (if tokenSerialNumber cfg \<noteq> [] then intermediateProfile cfg else profile cfg)\<rparr>
      \<and> (\<exists>pre0 found.
             pre = pre0 @ [Session_New (sess_Options sess), STS_GetCallerIdentity sess]
           \<and> session_loadConfig w (trace s @ pre0) (sess_Options sess) = Inr found
           \<and> session_NewSessionWithOptions w (trace s @ pre0) (sess_Options sess)
               = Inr (sess_Config_Region sess)
           \<and> sess_Config_Region sess = mergeRegion (Some (region cfg)) found
           \<and> ((found = None \<or> found = Some []) \<longrightarrow> sess_Config_Region sess = Some (region cfg)))
      \<and> sess_Config_Region sess
           = Some (case sess_Config_Region sess of Some r \<Rightarrow> r | None \<Rightarrow> region cfg)
      \<and> (region cfg \<noteq> [] \<longrightarrow> sess_Config_Region sess = Some (region cfg))
      \<and> (\<forall>e. sts_AssumeRole w (trace s @ pre) sess a n d = Inl e \<longrightarrow>
             post = [Stderr (''Error assuming role: '' @ e @ [LF])])
      \<and> (\<forall>cred. sts_AssumeRole w (trace s @ pre) sess a n d = Inr cred \<longrightarrow>
             (\<exists>post'. post = PW_WriteProfile cred (targetProfile cfg) (sess_Config_Region sess) # post'
                  \<and> list_all (\<lambda>e. \<not> is_WriteProfile e) post')))"
proof -
  let ?A = "if tokenSerialNumber cfg \<noteq> [] then ensureSessionTokenProfile w cfg pw else ret ()"
  let ?bp = "main_baseProfile cfg"
  let ?o = "newSessionOptions ?bp (region cfg)"
  have o: "?o = \<lparr>Config_Region = Some (region cfg),
             Profile = (if tokenSerialNumber cfg \<noteq> [] then intermediateProfile cfg else profile cfg)\<rparr>"
    by (simp add: newSessionOptions_def main_baseProfile_def)
  from assms have b: "thenDo ?A (\<lambda>_. main_loop_rest w cfg ?bp pw) s = (out, s')"
    by (simp add: main_loop_body_rest)
  obtain outA sA where A: "?A s = (outA, sA)" by (cases "?A s")
  from emitsD [OF intermediate_no_AssumeRole A] obtain evsA where
    evsA: "trace sA = trace s @ evsA" "list_all (\<lambda>e. \<not> is_AssumeRole e) evsA" by blast
  show ?thesis
  proof (cases "outA = Return ()")
    case False
    then have "s' = sA" and no: "out \<noteq> Return ()"
      using b A by (cases outA; auto simp: thenDo_def)+
    then have "trace s' = trace s @ evsA" using evsA by simp
    moreover have "\<And>pre e post. evsA = pre @ e # post \<Longrightarrow> is_AssumeRole e \<Longrightarrow> False"
      using evsA(2) by (auto simp: list_all_iff)
    ultimately show ?thesis using no by (intro exI [of _ evsA]) fastforce
  next
    case True
    then have r: "main_loop_rest w cfg ?bp pw sA = (out, s')" using b A by (simp add: thenDo_def)
    from main_loop_rest_shape [OF r] obtain evsR where
      tr: "trace s' = trace sA @ evsR" and
      sh: "(list_all (\<lambda>e. \<not> is_AssumeRole e) evsR \<and> list_all (\<lambda>e. \<not> is_WriteProfile e) evsR \<and> out \<noteq> Return ())
      \<or> (\<exists>r arn ys.
            session_NewSessionWithOptions w (trace sA) ?o = Inr r
          \<and> evsR = [Session_New ?o, STS_GetCallerIdentity \<lparr>sess_Options = ?o, sess_Config_Region = r\<rparr>]
                  @ STS_AssumeRole \<lparr>sess_Options = ?o, sess_Config_Region = r\<rparr>
                      (config_GetRoleArn w cfg) (lastSegment arn) (targetDuration cfg) # ys
          \<and> list_all (\<lambda>e. \<not> is_AssumeRole e) ys
          \<and> after_AssumeRole w cfg pw
               (trace sA @ [Session_New ?o, STS_GetCallerIdentity \<lparr>sess_Options = ?o, sess_Config_Region = r\<rparr>])
               \<lparr>sess_Options = ?o, sess_Config_Region = r\<rparr>
               (config_GetRoleArn w cfg) (lastSegment arn) (targetDuration cfg) ys)"
      by blast
    have tr': "trace s' = trace s @ (evsA @ evsR)" using tr evsA by simp
    from sh show ?thesis
    proof
      assume n: "list_all (\<lambda>e. \<not> is_AssumeRole e) evsR \<and> list_all (\<lambda>e. \<not> is_WriteProfile e) evsR \<and> out \<noteq> Return ()"
      have "\<And>pre e post. evsA @ evsR = pre @ e # post \<Longrightarrow> is_AssumeRole e \<Longrightarrow> False"
      proof -
        fix pre e post assume eq: "evsA @ evsR = pre @ e # post" and ar: "is_AssumeRole e"
        have "e \<in> set (evsA @ evsR)" unfolding eq by simp
        then show False using evsA(2) n ar by (auto simp: list_all_iff)
      qed
      then show ?thesis using tr' n by (intro exI [of _ "evsA @ evsR"]) fastforce
    next
      assume "\<exists>r arn ys.
            session_NewSessionWithOptions w (trace sA) ?o = Inr r
          \<and> evsR = [Session_New ?o, STS_GetCallerIdentity \<lparr>sess_Options = ?o, sess_Config_Region = r\<rparr>]
                  @ STS_AssumeRole \<lparr>sess_Options = ?o, sess_Config_Region = r\<rparr>
                      (config_GetRoleArn w cfg) (lastSegment arn) (targetDuration cfg) # ys
          \<and> list_all (\<lambda>e. \<not> is_AssumeRole e) ys
          \<and> after_AssumeRole w cfg pw
               (trace sA @ [Session_New ?o, STS_GetCallerIdentity \<lparr>sess_Options = ?o, sess_Config_Region = r\<rparr>])
               \<lparr>sess_Options = ?o, sess_Config_Region = r\<rparr>
               (config_GetRoleArn w cfg) (lastSegment arn) (targetDuration cfg) ys"
      then obtain r arn ys where
        sr: "session_NewSessionWithOptions w (trace sA) ?o = Inr r" and
        evsR: "evsR = [Session_New ?o, STS_GetCallerIdentity \<lparr>sess_Options = ?o, sess_Config_Region = r\<rparr>]
                  @ STS_AssumeRole \<lparr>sess_Options = ?o, sess_Config_Region = r\<rparr>
                      (config_GetRoleArn w cfg) (lastSegment arn) (targetDuration cfg) # ys"
        and ys: "list_all (\<lambda>e. \<not> is_AssumeRole e) ys"
        and aft: "after_AssumeRole w cfg pw
               (trace sA @ [Session_New ?o, STS_GetCallerIdentity \<lparr>sess_Options = ?o, sess_Config_Region = r\<rparr>])
               \<lparr>sess_Options = ?o, sess_Config_Region = r\<rparr>
               (config_GetRoleArn w cfg) (lastSegment arn) (targetDuration cfg) ys"
        by blast
      let ?sess = "\<lparr>sess_Options = ?o, sess_Config_Region = r\<rparr>"
      let ?xs = "evsA @ [Session_New ?o, STS_GetCallerIdentity ?sess]"
      let ?ar = "STS_AssumeRole ?sess (config_GetRoleArn w cfg) (lastSegment arn) (targetDuration cfg)"
      have xs: "list_all (\<lambda>e. \<not> is_AssumeRole e) ?xs" using evsA(2) by simp
      have whole: "evsA @ evsR = ?xs @ ?ar # ys" using evsR by simp
      have main: "\<And>pre sess a n d post. evsA @ evsR = pre @ STS_AssumeRole sess a n d # post \<Longrightarrow>
           pre = ?xs \<and> STS_AssumeRole sess a n d = ?ar \<and> post = ys"
      proof -
        fix pre sess a n d post
        assume "evsA @ evsR = pre @ STS_AssumeRole sess a n d # post"
        then have "?xs @ ?ar # ys = pre @ STS_AssumeRole sess a n d # post" using whole by simp
        from unique_split [OF xs ys _ this] show "pre = ?xs \<and> STS_AssumeRole sess a n d = ?ar \<and> post = ys"
          by simp
      qed
      have aft': "after_AssumeRole w cfg pw (trace s @ ?xs) ?sess
               (config_GetRoleArn w cfg) (lastSegment arn) (targetDuration cfg) ys"
        using aft evsA(1) by simp
      from session_region_of_options(3) [OF sr] obtain found where
        found: "session_loadConfig w (trace s @ evsA) ?o = Inr found"
          "r = mergeRegion (Some (region cfg)) found"
        using evsA(1) by auto
      have rS: "r \<noteq> None" and rC: "region cfg \<noteq> [] \<Longrightarrow> r = Some (region cfg)"
        using session_region_of_options(1,2) [OF sr] by auto
      have rF: "found = None \<or> found = Some [] \<Longrightarrow> r = Some (region cfg)"
        using found(2) mergeRegion_Some(3) by simp
      have sr': "session_NewSessionWithOptions w (trace s @ evsA) ?o = Inr r"
        using sr evsA(1) by simp
      show ?thesis
      proof (rule exI [of _ "evsA @ evsR"], intro conjI allI impI)
        show "trace s' = trace s @ evsA @ evsR" using tr' by simp
      next
        show "list_ex is_AssumeRole (evsA @ evsR)" unfolding whole by simp
      next
        fix pre sess a n d post
        assume "evsA @ evsR = pre @ STS_AssumeRole sess a n d # post"
        from main [OF this] show "sess_Options sess = \<lparr>Config_Region = Some (region cfg),
             Profile = (if tokenSerialNumber cfg \<noteq> [] then intermediateProfile cfg else profile cfg)\<rparr>"
          using o by simp
      next
        fix pre sess a n d post
        assume "evsA @ evsR = pre @ STS_AssumeRole sess a n d # post"
        from main [OF this] have p: "pre = ?xs" and se: "sess = ?sess" by simp_all
        have "pre = evsA @ [Session_New (sess_Options sess), STS_GetCallerIdentity sess]
           \<and> session_loadConfig w (trace s @ evsA) (sess_Options sess) = Inr found
           \<and> session_NewSessionWithOptions w (trace s @ evsA) (sess_Options sess)
               = Inr (sess_Config_Region sess)
           \<and> sess_Config_Region sess = mergeRegion (Some (region cfg)) found
           \<and> ((found = None \<or> found = Some []) \<longrightarrow> sess_Config_Region sess = Some (region cfg))"
          using p se found sr' rF by simp
        then show "\<exists>pre0 found.
             pre = pre0 @ [Session_New (sess_Options sess), STS_GetCallerIdentity sess]
           \<and> session_loadConfig w (trace s @ pre0) (sess_Options sess) = Inr found
           \<and> session_NewSessionWithOptions w (trace s @ pre0) (sess_Options sess)
               = Inr (sess_Config_Region sess)
           \<and> sess_Config_Region sess = mergeRegion (Some (region cfg)) found
           \<and> ((found = None \<or> found = Some []) \<longrightarrow> sess_Config_Region sess = Some (region cfg))"
          by blast
      next
        fix pre sess a n d post
        assume "evsA @ evsR = pre @ STS_AssumeRole sess a n d # post"
        from main [OF this] have se: "sess = ?sess" by simp
        show "sess_Config_Region sess
           = Some (case sess_Config_Region sess of Some r \<Rightarrow> r | None \<Rightarrow> region cfg)"
          using se rS by (cases r) simp_all
      next
        fix pre sess a n d post
        assume "evsA @ evsR = pre @ STS_AssumeRole sess a n d # post" and ne: "region cfg \<noteq> []"
        from main [OF this(1)] have se: "sess = ?sess" by simp
        show "sess_Config_Region sess = Some (region cfg)"
          using se rC [OF ne] by simp
      next
        fix pre sess a n d post e
        assume "evsA @ evsR = pre @ STS_AssumeRole sess a n d # post"
          and "sts_AssumeRole w (trace s @ pre) sess a n d = Inl e"
        with main [OF this(1)] aft' show "post = [Stderr (''Error assuming role: '' @ e @ [LF])]"
          by (simp add: after_AssumeRole_def)
      next
        fix pre sess a n d post cred
        assume "evsA @ evsR = pre @ STS_AssumeRole sess a n d # post"
          and "sts_AssumeRole w (trace s @ pre) sess a n d = Inr cred"
        with main [OF this(1)] aft'
        show "\<exists>post'. post = PW_WriteProfile cred (targetProfile cfg) (sess_Config_Region sess) # post'
                  \<and> list_all (\<lambda>e. \<not> is_WriteProfile e) post'"
          by (simp add: after_AssumeRole_def)
      qed
    qed
  qed
qed

theorem C8_role_session_and_target_write_witness:
  "main_loop_body world_ok cfg_plain (main_baseProfile cfg_plain) ProfileWriter state0
      = (Return (),
         \<lparr>trace =
          [Session_New \<lparr>Config_Region = Some ''eu-west-1'', Profile = ''default''\<rparr>,
           STS_GetCallerIdentity session_base,
           STS_AssumeRole session_base ''arn:aws:iam::210987654321:role/admin'' ''alice'' 3600,
           PW_WriteProfile (Some role_cred) ''target'' (Some ''eu-west-1''),
           OS_Create ''/tmp/current_swamp_profile'',
           File_Write ''/tmp/current_swamp_profile'' (exportText ''target'')],
          files = [''/tmp/current_swamp_profile'' \<mapsto> exportText ''target'']\<rparr>)
   \<and> region cfg_plain \<noteq> []
   \<and> session_loadConfig world_ok (trace state0)
        \<lparr>Config_Region = Some ''eu-west-1'', Profile = ''default''\<rparr> = Inr None
   \<and> sts_AssumeRole world_ok
        (trace state0 @ [Session_New \<lparr>Config_Region = Some ''eu-west-1'', Profile = ''default''\<rparr>,
           STS_GetCallerIdentity session_base])
        session_base ''arn:aws:iam::210987654321:role/admin'' ''alice'' 3600
       = Inr (Some role_cred)
   \<and> trace (snd (main_loop_body world_envregion (cfg_plain\<lparr>region := []\<rparr>)
                   (main_baseProfile (cfg_plain\<lparr>region := []\<rparr>)) ProfileWriter state0))
      = [Session_New \<lparr>Config_Region = Some [], Profile = ''default''\<rparr>,
         STS_GetCallerIdentity
           \<lparr>sess_Options = \<lparr>Config_Region = Some [], Profile = ''default''\<rparr>,
              sess_Config_Region = Some ''us-east-1''\<rparr>,
         STS_AssumeRole
           \<lparr>sess_Options = \<lparr>Config_Region = Some [], Profile = ''default''\<rparr>,
              sess_Config_Region = Some ''us-east-1''\<rparr>
           ''arn:aws:iam::210987654321:role/admin'' ''alice'' 3600,
         PW_WriteProfile (Some role_cred) ''target'' (Some ''us-east-1''),
         OS_Create ''/tmp/current_swamp_profile'',
         File_Write ''/tmp/current_swamp_profile'' (exportText ''target'')]"
  using C8_role_session_and_target_write [of world_ok cfg_plain ProfileWriter state0
      "fst (main_loop_body world_ok cfg_plain (main_baseProfile cfg_plain) ProfileWriter state0)"
      "snd (main_loop_body world_ok cfg_plain (main_baseProfile cfg_plain) ProfileWriter state0)"]
  by (simp add: run_defs example_defs)

lemma filter_none: "list_all (\<lambda>e. \<not> P e) xs \<Longrightarrow> filter P xs = []"
  by (induction xs) auto

lemma main_loop_rest_writes:
  assumes "main_loop_rest w cfg bp pw s = (out, s')"
  shows "\<exists>evs. trace s' = trace s @ evs
          \<and> list_all (\<lambda>e. \<not> is_GetSessionToken e \<and> \<not> is_token_acquisition e) evs
          \<and> length (filter is_WriteProfile evs) \<le> 1
          \<and> (\<forall>c n r. PW_WriteProfile c n r \<in> set evs \<longrightarrow> n = targetProfile cfg)"
proof -
  have "emits (\<lambda>e. (\<not> is_GetSessionToken e \<and> \<not> is_token_acquisition e)
                 \<and> (\<forall>c n r. e = PW_WriteProfile c n r \<longrightarrow> n = targetProfile cfg))
          (main_loop_rest w cfg bp pw)"
    by (intro emits_main_loop_rest) simp_all
  from emitsD [OF this assms] obtain evs where
    evs: "trace s' = trace s @ evs"
      "list_all (\<lambda>e. (\<not> is_GetSessionToken e \<and> \<not> is_token_acquisition e)
                 \<and> (\<forall>c n r. e = PW_WriteProfile c n r \<longrightarrow> n = targetProfile cfg)) evs"
    by blast
  from main_loop_rest_shape [OF assms] evs(1) have
    sh: "(list_all (\<lambda>e. \<not> is_AssumeRole e) evs \<and> list_all (\<lambda>e. \<not> is_WriteProfile e) evs \<and> out \<noteq> Return ())
      \<or> (\<exists>r arn ys.
            evs = [Session_New (newSessionOptions bp (region cfg)),
                   STS_GetCallerIdentity \<lparr>sess_Options = newSessionOptions bp (region cfg), sess_Config_Region = r\<rparr>]
                  @ STS_AssumeRole \<lparr>sess_Options = newSessionOptions bp (region cfg), sess_Config_Region = r\<rparr>
                      (config_GetRoleArn w cfg) (lastSegment arn) (targetDuration cfg) # ys
          \<and> list_all (\<lambda>e. \<not> is_AssumeRole e) ys
          \<and> after_AssumeRole w cfg pw
               (trace s @ [Session_New (newSessionOptions bp (region cfg)),
                   STS_GetCallerIdentity \<lparr>sess_Options = newSessionOptions bp (region cfg), sess_Config_Region = r\<rparr>])
               \<lparr>sess_Options = newSessionOptions bp (region cfg), sess_Config_Region = r\<rparr>
               (config_GetRoleArn w cfg) (lastSegment arn) (targetDuration cfg) ys)"
    by auto
  have "length (filter is_WriteProfile evs) \<le> 1"
    using sh
  proof
    assume "list_all (\<lambda>e. \<not> is_AssumeRole e) evs \<and> list_all (\<lambda>e. \<not> is_WriteProfile e) evs \<and> out \<noteq> Return ()"
    then show ?thesis by (simp add: filter_none)
  next
    assume "\<exists>r arn ys.
            evs = [Session_New (newSessionOptions bp (region cfg)),
                   STS_GetCallerIdentity \<lparr>sess_Options = newSessionOptions bp (region cfg), sess_Config_Region = r\<rparr>]
                  @ STS_AssumeRole \<lparr>sess_Options = newSessionOptions bp (region cfg), sess_Config_Region = r\<rparr>
                      (config_GetRoleArn w cfg) (lastSegment arn) (targetDuration cfg) # ys
          \<and> list_all (\<lambda>e. \<not> is_AssumeRole e) ys
          \<and> after_AssumeRole w cfg pw
               (trace s @ [Session_New (newSessionOptions bp (region cfg)),
                   STS_GetCallerIdentity \<lparr>sess_Options = newSessionOptions bp (region cfg), sess_Config_Region = r\<rparr>])
               \<lparr>sess_Options = newSessionOptions bp (region cfg), sess_Config_Region = r\<rparr>
               (config_GetRoleArn w cfg) (lastSegment arn) (targetDuration cfg) ys"
    then obtain r arn ys where
      e: "evs = [Session_New (newSessionOptions bp (region cfg)),
                   STS_GetCallerIdentity \<lparr>sess_Options = newSessionOptions bp (region cfg), sess_Config_Region = r\<rparr>]
                  @ STS_AssumeRole \<lparr>sess_Options = newSessionOptions bp (region cfg), sess_Config_Region = r\<rparr>
                      (config_GetRoleArn w cfg) (lastSegment arn) (targetDuration cfg) # ys"
      and a: "after_AssumeRole w cfg pw
               (trace s @ [Session_New (newSessionOptions bp (region cfg)),
                   STS_GetCallerIdentity \<lparr>sess_Options = newSessionOptions bp (region cfg), sess_Config_Region = r\<rparr>])
               \<lparr>sess_Options = newSessionOptions bp (region cfg), sess_Config_Region = r\<rparr>
               (config_GetRoleArn w cfg) (lastSegment arn) (targetDuration cfg) ys"
      by blast
    have "length (filter is_WriteProfile ys) \<le> 1"
    proof (cases "sts_AssumeRole w
               (trace s @ [Session_New (newSessionOptions bp (region cfg)),
                   STS_GetCallerIdentity \<lparr>sess_Options = newSessionOptions bp (region cfg), sess_Config_Region = r\<rparr>])
               \<lparr>sess_Options = newSessionOptions bp (region cfg), sess_Config_Region = r\<rparr>
               (config_GetRoleArn w cfg) (lastSegment arn) (targetDuration cfg)")
      case (Inl x)
      then show ?thesis using a by (simp add: after_AssumeRole_def)
    next
      case (Inr cred)
      then show ?thesis using a by (auto simp: after_AssumeRole_def filter_none)
    qed
    then show ?thesis by (simp add: e)
  qed
  with evs show ?thesis by (auto simp: list_all_iff)
qed

subsection \<open>The intermediate session step\<close>

lemma validateSessionToken_trace:
  assumes "validateSessionToken w opts s = (Return valid, s1)"
  shows "\<exists>r. session_NewSessionWithOptions w (trace s) opts = Inr r
           \<and> trace s1 = trace s @ [Session_New opts,
                 STS_GetCallerIdentity \<lparr>sess_Options = opts, sess_Config_Region = r\<rparr>]"
  using assms
  by (auto simp: validateSessionToken_def thenDo_def session_Must_New_def emit_def split: sum.splits)

text \<open>
  C1. With an MFA serial configured, if the validity check against the intermediate
  profile returns true, then the intermediate step consists of that check and a
  message on standard output: it returns without a session-token call and without a
  profile write. In the whole pass there is no session-token call and no acquisition of
  an MFA code, and the only profile write there can be is the one write under the
  target profile name.
\<close>

theorem C1_valid_session_skips_issuance:
  assumes ser: "tokenSerialNumber cfg \<noteq> []"
    and v: "validateSessionToken w (getIntermediateSessionOptions cfg) s = (Return True, s1)"
    and b: "main_loop_body w cfg bp pw s = (out, s')"
  shows "ensureSessionTokenProfile w cfg pw s
           = (Return (), emit (Stdout (''Session token for profile '' @ profile cfg @ '' is still valid'' @ [LF])) s1)
     \<and> (\<exists>sess. trace s1 = trace s @ [Session_New (getIntermediateSessionOptions cfg), STS_GetCallerIdentity sess])
     \<and> (\<exists>evs. trace s' = trace s @ evs
          \<and> list_all (\<lambda>e. \<not> is_GetSessionToken e \<and> \<not> is_token_acquisition e) evs
          \<and> length (filter is_WriteProfile evs) \<le> 1
          \<and> (\<forall>c n r. PW_WriteProfile c n r \<in> set evs \<longrightarrow> n = targetProfile cfg))"
proof (intro conjI)
  let ?msg = "Stdout (''Session token for profile '' @ profile cfg @ '' is still valid'' @ [LF])"
  show e: "ensureSessionTokenProfile w cfg pw s = (Return (), emit ?msg s1)"
    using v by (simp add: ensureSessionTokenProfile_def thenDo_def)
  show t1: "\<exists>sess. trace s1 = trace s @ [Session_New (getIntermediateSessionOptions cfg), STS_GetCallerIdentity sess]"
    using v by (auto simp: validateSessionToken_def thenDo_def session_Must_New_def emit_def split: sum.splits)
  have "main_loop_rest w cfg bp pw (emit ?msg s1) = (out, s')"
    using b e ser by (simp add: main_loop_body_rest thenDo_def)
  from main_loop_rest_writes [OF this] obtain evs where
    evs: "trace s' = trace (emit ?msg s1) @ evs"
      "list_all (\<lambda>e. \<not> is_GetSessionToken e \<and> \<not> is_token_acquisition e) evs"
      "length (filter is_WriteProfile evs) \<le> 1"
      "\<forall>c n r. PW_WriteProfile c n r \<in> set evs \<longrightarrow> n = targetProfile cfg"
    by blast
  from t1 obtain sess where
    s1: "trace s1 = trace s @ [Session_New (getIntermediateSessionOptions cfg), STS_GetCallerIdentity sess]"
    by blast
  let ?all = "[Session_New (getIntermediateSessionOptions cfg), STS_GetCallerIdentity sess, ?msg] @ evs"
  have "trace s' = trace s @ ?all" using evs(1) s1 by (simp add: trace_emit)
  moreover have "list_all (\<lambda>e. \<not> is_GetSessionToken e \<and> \<not> is_token_acquisition e) ?all"
    using evs(2) by simp
  moreover have "length (filter is_WriteProfile ?all) \<le> 1" using evs(3) by simp
  moreover have "\<forall>c n r. PW_WriteProfile c n r \<in> set ?all \<longrightarrow> n = targetProfile cfg"
    using evs(4) by simp
  ultimately show "\<exists>evs. trace s' = trace s @ evs
          \<and> list_all (\<lambda>e. \<not> is_GetSessionToken e \<and> \<not> is_token_acquisition e) evs
          \<and> length (filter is_WriteProfile evs) \<le> 1
          \<and> (\<forall>c n r. PW_WriteProfile c n r \<in> set evs \<longrightarrow> n = targetProfile cfg)"
    by blast
qed

theorem C1_valid_session_skips_issuance_witness:
  "tokenSerialNumber cfg_mfa \<noteq> []
   \<and> fst (validateSessionToken world_ok (getIntermediateSessionOptions cfg_mfa) state0) = Return True
   \<and> trace (snd (main_loop_body world_ok cfg_mfa (main_baseProfile cfg_mfa) ProfileWriter state0))
      = [Session_New \<lparr>Config_Region = Some ''eu-west-1'', Profile = ''session''\<rparr>,
         STS_GetCallerIdentity session_mfa,
         Stdout (''Session token for profile default is still valid'' @ [LF]),
         Session_New \<lparr>Config_Region = Some ''eu-west-1'', Profile = ''session''\<rparr>,
         STS_GetCallerIdentity session_mfa,
         STS_AssumeRole session_mfa ''arn:aws:iam::210987654321:role/admin'' ''alice'' 3600,
         PW_WriteProfile (Some role_cred) ''target'' (Some ''eu-west-1''),
         OS_Create ''/tmp/current_swamp_profile'',
         File_Write ''/tmp/current_swamp_profile'' (exportText ''target'')]"
  using C1_valid_session_skips_issuance [of cfg_mfa world_ok state0
      "snd (validateSessionToken world_ok (getIntermediateSessionOptions cfg_mfa) state0)"
      "main_baseProfile cfg_mfa" ProfileWriter
      "fst (main_loop_body world_ok cfg_mfa (main_baseProfile cfg_mfa) ProfileWriter state0)"
      "snd (main_loop_body world_ok cfg_mfa (main_baseProfile cfg_mfa) ProfileWriter state0)"]
  by (simp add: run_defs example_defs)

lemma getTokenCode_footprint:
  "emits (\<lambda>e. \<not> is_GetSessionToken e \<and> \<not> is_AssumeRole e \<and> \<not> is_WriteProfile e \<and> \<not> is_provider_call e)
     (getTokenCode w cfg)"
  by (intro emits_getTokenCode) simp_all

lemma getSessionToken_shape:
  assumes "getSessionToken w opts cfg s = (out, s')"
  shows "(\<exists>r code cred acq.
            out = Return cred
          \<and> session_NewSessionWithOptions w (trace s) opts = Inr r
          \<and> fst (getTokenCode w cfg (emit (Session_New opts) s)) = Return code
          \<and> list_all (\<lambda>e. \<not> is_GetSessionToken e \<and> \<not> is_AssumeRole e \<and> \<not> is_WriteProfile e \<and> \<not> is_provider_call e) acq
          \<and> sts_GetSessionToken w (trace s @ Session_New opts # acq) \<lparr>sess_Options = opts, sess_Config_Region = r\<rparr>
                (intermediateDuration cfg) (tokenSerialNumber cfg) code = Inr cred
          \<and> trace s' = trace s @ Session_New opts # acq
               @ [STS_GetSessionToken \<lparr>sess_Options = opts, sess_Config_Region = r\<rparr>
                    (intermediateDuration cfg) (tokenSerialNumber cfg) code])
       \<or> ((\<forall>c. out \<noteq> Return c)
          \<and> (\<exists>evs. trace s' = trace s @ evs
                \<and> list_all (\<lambda>e. \<not> is_AssumeRole e \<and> \<not> is_WriteProfile e) evs
                \<and> length (filter is_GetSessionToken evs) \<le> 1))"
proof (cases "session_NewSessionWithOptions w (trace s) opts")
  case (Inl e)
  then have "out = Panic e" "trace s' = trace s @ [Session_New opts]"
    using assms by (auto simp: getSessionToken_def thenDo_def session_Must_New_def emit_def)
  then show ?thesis by auto
next
  case (Inr r)
  let ?sess = "\<lparr>sess_Options = opts, sess_Config_Region = r\<rparr>"
  let ?s2 = "emit (Session_New opts) s"
  let ?call = "\<lambda>tokenCode s.
            case sts_GetSessionToken w (trace s) ?sess (intermediateDuration cfg)
                   (tokenSerialNumber cfg) tokenCode of
              Inl err \<Rightarrow> die ''Error getting session token'' err
                (emit (STS_GetSessionToken ?sess (intermediateDuration cfg)
                   (tokenSerialNumber cfg) tokenCode) s)
            | Inr cred \<Rightarrow> (Return cred,
                emit (STS_GetSessionToken ?sess (intermediateDuration cfg)
                   (tokenSerialNumber cfg) tokenCode) s)"
  from Inr assms have a: "thenDo (getTokenCode w cfg) ?call ?s2 = (out, s')"
    by (simp add: getSessionToken_def thenDo_def session_Must_New_def)
  obtain oc s3 where g: "getTokenCode w cfg ?s2 = (oc, s3)" by (cases "getTokenCode w cfg ?s2")
  from emitsD [OF getTokenCode_footprint g] obtain acq where
    acq: "trace s3 = trace ?s2 @ acq"
      "list_all (\<lambda>e. \<not> is_GetSessionToken e \<and> \<not> is_AssumeRole e \<and> \<not> is_WriteProfile e \<and> \<not> is_provider_call e) acq"
    by blast
  have t3: "trace s3 = trace s @ Session_New opts # acq" using acq(1) by (simp add: trace_emit)
  show ?thesis
  proof (cases oc)
    case (Return code)
    then have c: "?call code s3 = (out, s')" using a g by (simp add: thenDo_def)
    show ?thesis
    proof (cases "sts_GetSessionToken w (trace s3) ?sess (intermediateDuration cfg) (tokenSerialNumber cfg) code")
      case (Inl e)
      then have "out = os_Exit 1"
        "trace s' = trace s @ (Session_New opts # acq
           @ [STS_GetSessionToken ?sess (intermediateDuration cfg) (tokenSerialNumber cfg) code,
              Stderr (''Error getting session token: '' @ e @ [LF])])"
        using c t3 by (auto simp: die_def emit_def)
      moreover have "list_all (\<lambda>e. \<not> is_AssumeRole e \<and> \<not> is_WriteProfile e) (Session_New opts # acq
           @ [STS_GetSessionToken ?sess (intermediateDuration cfg) (tokenSerialNumber cfg) code,
              Stderr (''Error getting session token: '' @ e @ [LF])])"
        using acq(2) by (auto simp: list_all_iff)
      moreover have "length (filter is_GetSessionToken (Session_New opts # acq
           @ [STS_GetSessionToken ?sess (intermediateDuration cfg) (tokenSerialNumber cfg) code,
              Stderr (''Error getting session token: '' @ e @ [LF])])) \<le> 1"
        using acq(2) by (simp add: filter_none list_all_iff)
      ultimately show ?thesis by blast
    next
      case (Inr cred)
      then have "out = Return cred"
        "trace s' = trace s @ Session_New opts # acq
           @ [STS_GetSessionToken ?sess (intermediateDuration cfg) (tokenSerialNumber cfg) code]"
        using c t3 by (auto simp: emit_def)
      moreover have "fst (getTokenCode w cfg ?s2) = Return code" using g Return by simp
      moreover have "sts_GetSessionToken w (trace s @ Session_New opts # acq) ?sess
           (intermediateDuration cfg) (tokenSerialNumber cfg) code = Inr cred"
        using Inr t3 by simp
      ultimately show ?thesis using \<open>session_NewSessionWithOptions w (trace s) opts = Inr r\<close> acq(2)
        by blast
    qed
  next
    case (os_Exit c)
    then have "out = os_Exit c" "trace s' = trace s @ (Session_New opts # acq)"
      using a g t3 by (auto simp: thenDo_def)
    moreover have "list_all (\<lambda>e. \<not> is_AssumeRole e \<and> \<not> is_WriteProfile e) (Session_New opts # acq)"
      using acq(2) by (auto simp: list_all_iff)
    moreover have "length (filter is_GetSessionToken (Session_New opts # acq)) \<le> 1"
      using acq(2) by (simp add: filter_none list_all_iff)
    ultimately show ?thesis by blast
  next
    case (Panic e)
    then have "out = Panic e" "trace s' = trace s @ (Session_New opts # acq)"
      using a g t3 by (auto simp: thenDo_def)
    moreover have "list_all (\<lambda>e. \<not> is_AssumeRole e \<and> \<not> is_WriteProfile e) (Session_New opts # acq)"
      using acq(2) by (auto simp: list_all_iff)
    moreover have "length (filter is_GetSessionToken (Session_New opts # acq)) \<le> 1"
      using acq(2) by (simp add: filter_none list_all_iff)
    ultimately show ?thesis by blast
  qed
qed

lemma invalid_session_step:
  assumes ser: "tokenSerialNumber cfg \<noteq> []"
    and v: "validateSessionToken w (getIntermediateSessionOptions cfg) s = (Return False, s1)"
    and b: "main_loop_body w cfg bp pw s = (out, s')"
  shows
   "(\<exists>r code cred acq evs2.
        trace s' = trace s1 @ Session_New \<lparr>Config_Region = Some (region cfg), Profile = profile cfg\<rparr> # acq
            @ [STS_GetSessionToken
                 \<lparr>sess_Options = \<lparr>Config_Region = Some (region cfg), Profile = profile cfg\<rparr>,
                    sess_Config_Region = r\<rparr>
                 (intermediateDuration cfg) (tokenSerialNumber cfg) code,
               PW_WriteProfile cred (intermediateProfile cfg) (Some (region cfg))] @ evs2
      \<and> fst (getTokenCode w cfg
             (emit (Session_New \<lparr>Config_Region = Some (region cfg), Profile = profile cfg\<rparr>) s1)) = Return code
      \<and> sts_GetSessionToken w
             (trace s1 @ Session_New \<lparr>Config_Region = Some (region cfg), Profile = profile cfg\<rparr> # acq)
             \<lparr>sess_Options = \<lparr>Config_Region = Some (region cfg), Profile = profile cfg\<rparr>,
                sess_Config_Region = r\<rparr>
             (intermediateDuration cfg) (tokenSerialNumber cfg) code = Inr cred
      \<and> pw_WriteProfile w
             (trace s1 @ Session_New \<lparr>Config_Region = Some (region cfg), Profile = profile cfg\<rparr> # acq
                @ [STS_GetSessionToken
                     \<lparr>sess_Options = \<lparr>Config_Region = Some (region cfg), Profile = profile cfg\<rparr>,
                        sess_Config_Region = r\<rparr>
                     (intermediateDuration cfg) (tokenSerialNumber cfg) code])
             pw cred (intermediateProfile cfg) (Some (region cfg)) = None
      \<and> list_all (\<lambda>e. \<not> is_provider_call e \<and> \<not> is_WriteProfile e) acq
      \<and> list_all (\<lambda>e. \<not> is_GetSessionToken e) evs2)
    \<or> (out \<noteq> Return ()
        \<and> (\<exists>evs. trace s' = trace s1 @ evs \<and> list_all (\<lambda>e. \<not> is_AssumeRole e) evs
               \<and> length (filter is_GetSessionToken evs) \<le> 1))"
proof -
  let ?bo = "\<lparr>Config_Region = Some (region cfg), Profile = profile cfg\<rparr>"
  have bo: "getBaseSessionOptions cfg = ?bo"
    by (simp add: getBaseSessionOptions_def newSessionOptions_def)
  let ?W = "\<lambda>cred. writeProfileOrDie w pw cred (intermediateProfile cfg) (Some (region cfg))"
  have e: "ensureSessionTokenProfile w cfg pw s = thenDo (getSessionToken w ?bo cfg) ?W s1"
    using v by (simp add: ensureSessionTokenProfile_def thenDo_def bo)
  from b ser have b': "thenDo (ensureSessionTokenProfile w cfg pw) (\<lambda>_. main_loop_rest w cfg bp pw) s = (out, s')"
    by (simp add: main_loop_body_rest)
  obtain og sg where g: "getSessionToken w ?bo cfg s1 = (og, sg)"
    by (cases "getSessionToken w ?bo cfg s1")
  from getSessionToken_shape [OF g] show ?thesis
  proof
    assume "\<exists>r code cred acq.
            og = Return cred
          \<and> session_NewSessionWithOptions w (trace s1) ?bo = Inr r
          \<and> fst (getTokenCode w cfg (emit (Session_New ?bo) s1)) = Return code
          \<and> list_all (\<lambda>e. \<not> is_GetSessionToken e \<and> \<not> is_AssumeRole e \<and> \<not> is_WriteProfile e \<and> \<not> is_provider_call e) acq
          \<and> sts_GetSessionToken w (trace s1 @ Session_New ?bo # acq) \<lparr>sess_Options = ?bo, sess_Config_Region = r\<rparr>
                (intermediateDuration cfg) (tokenSerialNumber cfg) code = Inr cred
          \<and> trace sg = trace s1 @ Session_New ?bo # acq
               @ [STS_GetSessionToken \<lparr>sess_Options = ?bo, sess_Config_Region = r\<rparr>
                    (intermediateDuration cfg) (tokenSerialNumber cfg) code]"
    then obtain r code cred acq where
      og: "og = Return cred"
      and code: "fst (getTokenCode w cfg (emit (Session_New ?bo) s1)) = Return code"
      and acq: "list_all (\<lambda>e. \<not> is_GetSessionToken e \<and> \<not> is_AssumeRole e \<and> \<not> is_WriteProfile e \<and> \<not> is_provider_call e) acq"
      and gst: "sts_GetSessionToken w (trace s1 @ Session_New ?bo # acq) \<lparr>sess_Options = ?bo, sess_Config_Region = r\<rparr>
                (intermediateDuration cfg) (tokenSerialNumber cfg) code = Inr cred"
      and tg: "trace sg = trace s1 @ Session_New ?bo # acq
               @ [STS_GetSessionToken \<lparr>sess_Options = ?bo, sess_Config_Region = r\<rparr>
                    (intermediateDuration cfg) (tokenSerialNumber cfg) code]"
      by blast
    let ?gst = "STS_GetSessionToken \<lparr>sess_Options = ?bo, sess_Config_Region = r\<rparr>
                    (intermediateDuration cfg) (tokenSerialNumber cfg) code"
    let ?wp = "PW_WriteProfile cred (intermediateProfile cfg) (Some (region cfg))"
    show ?thesis
    proof (cases "pw_WriteProfile w (trace sg) pw cred (intermediateProfile cfg) (Some (region cfg))")
      case None
      then have "ensureSessionTokenProfile w cfg pw s = (Return (), emit ?wp sg)"
        using e g og by (simp add: thenDo_def writeProfileOrDie_def)
      then have r: "main_loop_rest w cfg bp pw (emit ?wp sg) = (out, s')"
        using b' by (simp add: thenDo_def)
      have "emits (\<lambda>e. \<not> is_GetSessionToken e) (main_loop_rest w cfg bp pw)"
        by (intro emits_main_loop_rest) simp_all
      from emitsD [OF this r] obtain evs2 where
        evs2: "trace s' = trace (emit ?wp sg) @ evs2" "list_all (\<lambda>e. \<not> is_GetSessionToken e) evs2"
        by blast
      have "trace s' = trace s1 @ Session_New ?bo # acq @ [?gst, ?wp] @ evs2"
        using evs2(1) tg by (simp add: trace_emit)
      moreover have "pw_WriteProfile w (trace s1 @ Session_New ?bo # acq @ [?gst]) pw cred
            (intermediateProfile cfg) (Some (region cfg)) = None"
        using None tg by simp
      moreover have "list_all (\<lambda>e. \<not> is_provider_call e \<and> \<not> is_WriteProfile e) acq"
        using acq by (auto simp: list_all_iff)
      ultimately show ?thesis using code gst evs2(2) by blast
    next
      case (Some err)
      then have "ensureSessionTokenProfile w cfg pw s
          = (os_Exit 1, emit (Stderr (''Error writing profile: '' @ err @ [LF])) (emit ?wp sg))"
        using e g og by (simp add: thenDo_def writeProfileOrDie_def die_def)
      then have "out = os_Exit 1"
        "trace s' = trace s1 @ (Session_New ?bo # acq @ [?gst, ?wp, Stderr (''Error writing profile: '' @ err @ [LF])])"
        using b' tg by (auto simp: thenDo_def trace_emit)
      moreover have "list_all (\<lambda>e. \<not> is_AssumeRole e)
           (Session_New ?bo # acq @ [?gst, ?wp, Stderr (''Error writing profile: '' @ err @ [LF])])"
        using acq by (auto simp: list_all_iff)
      moreover have "length (filter is_GetSessionToken
           (Session_New ?bo # acq @ [?gst, ?wp, Stderr (''Error writing profile: '' @ err @ [LF])])) \<le> 1"
        using acq by (simp add: filter_none list_all_iff)
      ultimately show ?thesis by blast
    qed
  next
    assume n: "(\<forall>c. og \<noteq> Return c)
          \<and> (\<exists>evs. trace sg = trace s1 @ evs
                \<and> list_all (\<lambda>e. \<not> is_AssumeRole e \<and> \<not> is_WriteProfile e) evs
                \<and> length (filter is_GetSessionToken evs) \<le> 1)"
    then have "ensureSessionTokenProfile w cfg pw s = (case og of os_Exit c \<Rightarrow> os_Exit c | Panic x \<Rightarrow> Panic x, sg)"
      using e g by (cases og) (auto simp: thenDo_def)
    then have "out \<noteq> Return ()" "s' = sg"
      using b' n by (cases og; auto simp: thenDo_def)+
    then show ?thesis using n by (auto simp: list_all_iff)
  qed
qed

text \<open>
  C2. With an MFA serial configured, if the validity check returns false, the pass has
  made two calls so far: the construction of a session from the intermediate profile
  and the identity lookup on it. From there it goes one of two ways. Either the
  intermediate step completes: the trace then holds the construction of a session from
  the base profile and the configured region, the acquisition of the MFA code (no
  provider call, no profile write), then one session-token call on that session with
  the configured intermediate duration, the MFA serial and the code that
  \<open>getTokenCode\<close> returned, then the write, which succeeds, of the credentials that
  this call returned under the intermediate profile name; no further session-token call
  follows, so that every role-assumption call of the pass comes after this single one.
  Or a fatal error ends the process within the step: then no role-assumption call has
  been made, and at most one session-token call.
\<close>

theorem C2_invalid_session_issues_one_token:
  assumes ser: "tokenSerialNumber cfg \<noteq> []"
    and v: "validateSessionToken w (getIntermediateSessionOptions cfg) s = (Return False, s1)"
    and b: "main_loop_body w cfg bp pw s = (out, s')"
  shows
   "(\<exists>sess. trace s1 = trace s
        @ [Session_New \<lparr>Config_Region = Some (region cfg), Profile = intermediateProfile cfg\<rparr>,
           STS_GetCallerIdentity sess])
    \<and> ((\<exists>r code cred acq evs2.
        trace s' = trace s1 @ Session_New \<lparr>Config_Region = Some (region cfg), Profile = profile cfg\<rparr> # acq
            @ [STS_GetSessionToken
                 \<lparr>sess_Options = \<lparr>Config_Region = Some (region cfg), Profile = profile cfg\<rparr>,
                    sess_Config_Region = r\<rparr>
                 (intermediateDuration cfg) (tokenSerialNumber cfg) code,
               PW_WriteProfile cred (intermediateProfile cfg) (Some (region cfg))] @ evs2
      \<and> fst (getTokenCode w cfg
             (emit (Session_New \<lparr>Config_Region = Some (region cfg), Profile = profile cfg\<rparr>) s1)) = Return code
      \<and> sts_GetSessionToken w
             (trace s1 @ Session_New \<lparr>Config_Region = Some (region cfg), Profile = profile cfg\<rparr> # acq)
             \<lparr>sess_Options = \<lparr>Config_Region = Some (region cfg), Profile = profile cfg\<rparr>,
                sess_Config_Region = r\<rparr>
             (intermediateDuration cfg) (tokenSerialNumber cfg) code = Inr cred
      \<and> pw_WriteProfile w
             (trace s1 @ Session_New \<lparr>Config_Region = Some (region cfg), Profile = profile cfg\<rparr> # acq
                @ [STS_GetSessionToken
                     \<lparr>sess_Options = \<lparr>Config_Region = Some (region cfg), Profile = profile cfg\<rparr>,
                        sess_Config_Region = r\<rparr>
                     (intermediateDuration cfg) (tokenSerialNumber cfg) code])
             pw cred (intermediateProfile cfg) (Some (region cfg)) = None
      \<and> list_all (\<lambda>e. \<not> is_provider_call e \<and> \<not> is_WriteProfile e) acq
      \<and> list_all (\<lambda>e. \<not> is_GetSessionToken e) evs2)
    \<or> (out \<noteq> Return ()
        \<and> (\<exists>evs. trace s' = trace s1 @ evs \<and> list_all (\<lambda>e. \<not> is_AssumeRole e) evs
               \<and> length (filter is_GetSessionToken evs) \<le> 1)))"
proof (rule conjI)
  show "\<exists>sess. trace s1 = trace s
        @ [Session_New \<lparr>Config_Region = Some (region cfg), Profile = intermediateProfile cfg\<rparr>,
           STS_GetCallerIdentity sess]"
    using validateSessionToken_trace [OF v]
    by (auto simp: getIntermediateSessionOptions_def newSessionOptions_def)
qed (rule invalid_session_step [OF ser v b])

theorem C2_invalid_session_issues_one_token_witness:
  "tokenSerialNumber cfg_mfa \<noteq> []
   \<and> fst (validateSessionToken world_expired (getIntermediateSessionOptions cfg_mfa) state0) = Return False
   \<and> main_loop_body world_expired cfg_mfa (main_baseProfile cfg_mfa) ProfileWriter state0
      = (Return (),
         \<lparr>trace =
          [Session_New \<lparr>Config_Region = Some ''eu-west-1'', Profile = ''session''\<rparr>,
           STS_GetCallerIdentity session_mfa,
           Session_New \<lparr>Config_Region = Some ''eu-west-1'', Profile = ''default''\<rparr>,
           Stdout (''Obtaining mfa token for: arn:aws:iam::123456789012:mfa/alice'' @ [LF]),
           Exec_Command ''/bin/sh'' [''-c'', ''oathtool --totp -b KEY''],
           STS_GetSessionToken session_base 43200 ''arn:aws:iam::123456789012:mfa/alice'' ''123456'',
           PW_WriteProfile (Some session_cred) ''session'' (Some ''eu-west-1''),
           Session_New \<lparr>Config_Region = Some ''eu-west-1'', Profile = ''session''\<rparr>,
           STS_GetCallerIdentity session_mfa,
           STS_AssumeRole session_mfa ''arn:aws:iam::210987654321:role/admin'' ''alice'' 3600,
           PW_WriteProfile (Some role_cred) ''target'' (Some ''eu-west-1''),
           OS_Create ''/tmp/current_swamp_profile'',
           File_Write ''/tmp/current_swamp_profile'' (exportText ''target'')],
          files = [''/tmp/current_swamp_profile'' \<mapsto> exportText ''target'']\<rparr>)"
  using C2_invalid_session_issues_one_token [of cfg_mfa world_expired state0
      "snd (validateSessionToken world_expired (getIntermediateSessionOptions cfg_mfa) state0)"
      "main_baseProfile cfg_mfa" ProfileWriter
      "fst (main_loop_body world_expired cfg_mfa (main_baseProfile cfg_mfa) ProfileWriter state0)"
      "snd (main_loop_body world_expired cfg_mfa (main_baseProfile cfg_mfa) ProfileWriter state0)"]
  by (simp add: run_defs example_defs)

lemma body_no_sleep: "emits (\<lambda>e. \<not> is_Sleep e) (main_loop_body w cfg bp pw)"
  by (intro emits_main_loop_body) simp_all

lemma main_loop_once:
  assumes "\<not> renew cfg"
  shows "main_loop (Suc n) w cfg bp pw s
           = (Some (fst (main_loop_body w cfg bp pw s)), snd (main_loop_body w cfg bp pw s))"
proof (cases "main_loop_body w cfg bp pw s")
  case (Pair out s1)
  then show ?thesis using assms by (cases out) auto
qed

lemma main_loop_step:
  assumes "renew cfg"
  shows "main_loop (Suc n) w cfg bp pw s
           = (if fst (main_loop_body w cfg bp pw s) = Return ()
              then main_loop n w cfg bp pw
                     (emit (Time_Sleep (sleepDuration cfg)) (snd (main_loop_body w cfg bp pw s)))
              else (Some (fst (main_loop_body w cfg bp pw s)), snd (main_loop_body w cfg bp pw s)))"
proof (cases "main_loop_body w cfg bp pw s")
  case (Pair out s1)
  then show ?thesis using assms by (cases out) auto
qed

lemma main_loop_never_returns:
  assumes "renew cfg"
  shows "fst (main_loop n w cfg bp pw s) \<noteq> Some (Return ())"
proof (induction n arbitrary: s)
  case 0
  show ?case by simp
next
  case (Suc n)
  show ?case
    using Suc [of "emit (Time_Sleep (sleepDuration cfg)) (snd (main_loop_body w cfg bp pw s))"]
    by (simp only: main_loop_step [OF assms] split: if_splits) simp
qed

lemma main_loop_sleeps:
  assumes "renew cfg"
  shows "\<exists>evs. trace (snd (main_loop n w cfg bp pw s)) = trace s @ evs
           \<and> (\<forall>e \<in> set evs. is_Sleep e \<longrightarrow> e = Time_Sleep (sleepDuration cfg))
           \<and> (fst (main_loop n w cfg bp pw s) = None \<longrightarrow> length (filter is_Sleep evs) = n)
           \<and> (fst (main_loop n w cfg bp pw s) \<noteq> None \<longrightarrow> length (filter is_Sleep evs) < n)"
proof (induction n arbitrary: s)
  case 0
  show ?case by simp
next
  case (Suc n)
  obtain out s1 where b: "main_loop_body w cfg bp pw s = (out, s1)"
    by (cases "main_loop_body w cfg bp pw s")
  from emitsD [OF body_no_sleep b] obtain evs1 where
    evs1: "trace s1 = trace s @ evs1" "list_all (\<lambda>e. \<not> is_Sleep e) evs1" by blast
  have f1: "filter is_Sleep evs1 = []" using evs1(2) by (rule filter_none)
  show ?case
  proof (cases "out = Return ()")
    case True
    let ?s2 = "emit (Time_Sleep (sleepDuration cfg)) s1"
    from Suc [of ?s2] obtain evs2 where
      evs2: "trace (snd (main_loop n w cfg bp pw ?s2)) = trace ?s2 @ evs2"
        "\<forall>e \<in> set evs2. is_Sleep e \<longrightarrow> e = Time_Sleep (sleepDuration cfg)"
        "fst (main_loop n w cfg bp pw ?s2) = None \<longrightarrow> length (filter is_Sleep evs2) = n"
        "fst (main_loop n w cfg bp pw ?s2) \<noteq> None \<longrightarrow> length (filter is_Sleep evs2) < n"
      by auto
    have m: "main_loop (Suc n) w cfg bp pw s = main_loop n w cfg bp pw ?s2"
      using b True by (simp del: main_loop.simps add: main_loop_step [OF assms])
    let ?all = "evs1 @ Time_Sleep (sleepDuration cfg) # evs2"
    have "trace (snd (main_loop (Suc n) w cfg bp pw s)) = trace s @ ?all"
      using m evs2(1) evs1(1) by (simp add: trace_emit)
    moreover have "\<forall>e \<in> set ?all. is_Sleep e \<longrightarrow> e = Time_Sleep (sleepDuration cfg)"
      using evs2(2) evs1(2) by (auto simp: list_all_iff)
    moreover have "length (filter is_Sleep ?all) = Suc (length (filter is_Sleep evs2))"
      using f1 by simp
    ultimately show ?thesis using evs2(3,4) m by (intro exI [of _ ?all]) simp
  next
    case False
    then have m: "main_loop (Suc n) w cfg bp pw s = (Some out, s1)"
      using b by (simp del: main_loop.simps add: main_loop_step [OF assms])
    show ?thesis
      using m evs1 f1 by (intro exI [of _ evs1]) (simp add: list_all_iff)
  qed
qed

lemma main_loop_unbounded:
  assumes "renew cfg" and "\<forall>t. fst (main_loop_body w cfg bp pw t) = Return ()"
  shows "fst (main_loop n w cfg bp pw s) = None"
proof (induction n arbitrary: s)
  case 0
  show ?case by simp
next
  case (Suc n)
  show ?case using assms(2) Suc by (simp del: main_loop.simps add: main_loop_step [OF assms(1)])
qed

lemma sleepDuration_seconds:
  assumes "0 \<le> sint (targetDuration cfg)" and "sint (targetDuration cfg) \<le> 18446744073"
  shows "sint (sleepDuration cfg) = (sint (targetDuration cfg) div 2) * 1000000000"
proof -
  let ?d = "sint (targetDuration cfg)"
  have h: "?d sdiv 2 = ?d div 2" using assms(1) by (simp add: signed_divide_int_def sgn_if)
  have r: "0 \<le> ?d div 2" "?d div 2 \<le> 9223372036" using assms by auto
  then have p: "0 \<le> 1000000000 * (?d div 2)" "1000000000 * (?d div 2) < 2 ^ 63" by auto
  have q: "int64_div (targetDuration cfg) 2 = word_of_int (?d div 2)"
    using h by (simp add: int64_div_def)
  have s: "sint (word_of_int (?d div 2) :: int64) = ?d div 2"
    using r by (simp add: sint_sbintrunc' signed_take_bit_int_eq_self)
  have "sint (sleepDuration cfg) = signed_take_bit 63 (1000000000 * (?d div 2))"
    unfolding sleepDuration_def time_Second_def q
    by (simp only: sint_word_ariths s) simp
  also have "\<dots> = 1000000000 * (?d div 2)"
    using p by (simp add: signed_take_bit_int_eq_self)
  finally show ?thesis by simp
qed

lemma main_runs_loop:
  "config_Validate w cfg = None \<Longrightarrow> NewProfileWriter w (trace s) = Inr pw \<Longrightarrow>
     main n w cfg s = main_loop n w cfg (main_baseProfile cfg) pw (emit PW_New s)"
  by (simp add: main_def)

subsection \<open>The renewal loop\<close>

text \<open>
  C7. Without \<open>renew\<close>, the loop ends after one pass of its body, whatever number
  of passes it is allowed, and the trace has no sleep. With \<open>renew\<close>, a pass that
  completes is followed by a sleep of \<open>time.Second * Duration(targetDuration/2)\<close>
  and by the loop itself; the loop never ends by returning (it ends only when a pass
  ends the process); after \<open>n\<close> passes that completed, the trace has exactly
  \<open>n\<close> sleeps, all of that duration; and when no pass fails the loop is still
  running after any number of passes. For a target duration between 0 and
  18446744073 seconds, which covers every duration that STS accepts, the product does
  not wrap and the sleep is \<open>targetDuration/2\<close> seconds. \<open>main\<close> runs this loop
  once the configuration is valid and the profile store is open.
\<close>

theorem C7_renewal_loop:
  "(\<not> renew cfg \<longrightarrow>
       main_loop (Suc n) w cfg bp pw s
         = (Some (fst (main_loop_body w cfg bp pw s)), snd (main_loop_body w cfg bp pw s))
     \<and> (\<exists>evs. trace (snd (main_loop (Suc n) w cfg bp pw s)) = trace s @ evs
            \<and> list_all (\<lambda>e. \<not> is_Sleep e) evs))
   \<and> (renew cfg \<longrightarrow>
       main_loop (Suc n) w cfg bp pw s
         = (if fst (main_loop_body w cfg bp pw s) = Return ()
            then main_loop n w cfg bp pw
                   (emit (Time_Sleep (sleepDuration cfg)) (snd (main_loop_body w cfg bp pw s)))
            else (Some (fst (main_loop_body w cfg bp pw s)), snd (main_loop_body w cfg bp pw s)))
     \<and> fst (main_loop n w cfg bp pw s) \<noteq> Some (Return ())
     \<and> (\<exists>evs. trace (snd (main_loop n w cfg bp pw s)) = trace s @ evs
           \<and> (\<forall>e \<in> set evs. is_Sleep e \<longrightarrow> e = Time_Sleep (sleepDuration cfg))
           \<and> (fst (main_loop n w cfg bp pw s) = None \<longrightarrow> length (filter is_Sleep evs) = n)
           \<and> (fst (main_loop n w cfg bp pw s) \<noteq> None \<longrightarrow> length (filter is_Sleep evs) < n))
     \<and> ((\<forall>t. fst (main_loop_body w cfg bp pw t) = Return ()) \<longrightarrow>
           fst (main_loop n w cfg bp pw s) = None))
   \<and> (0 \<le> sint (targetDuration cfg) \<and> sint (targetDuration cfg) \<le> 18446744073 \<longrightarrow>
        sint (sleepDuration cfg) = (sint (targetDuration cfg) div 2) * 1000000000)
   \<and> (config_Validate w cfg = None \<and> NewProfileWriter w (trace s) = Inr pw \<longrightarrow>
        main n w cfg s = main_loop n w cfg (main_baseProfile cfg) pw (emit PW_New s))"
proof (intro conjI impI)
  assume r: "\<not> renew cfg"
  show "main_loop (Suc n) w cfg bp pw s
         = (Some (fst (main_loop_body w cfg bp pw s)), snd (main_loop_body w cfg bp pw s))"
    using r by (rule main_loop_once)
  then show "\<exists>evs. trace (snd (main_loop (Suc n) w cfg bp pw s)) = trace s @ evs
            \<and> list_all (\<lambda>e. \<not> is_Sleep e) evs"
    using emitsD [OF body_no_sleep, of w cfg bp pw s "fst (main_loop_body w cfg bp pw s)"
        "snd (main_loop_body w cfg bp pw s)"]
    by (simp del: main_loop.simps)
next
  assume r: "renew cfg"
  show "main_loop (Suc n) w cfg bp pw s
         = (if fst (main_loop_body w cfg bp pw s) = Return ()
            then main_loop n w cfg bp pw
                   (emit (Time_Sleep (sleepDuration cfg)) (snd (main_loop_body w cfg bp pw s)))
            else (Some (fst (main_loop_body w cfg bp pw s)), snd (main_loop_body w cfg bp pw s)))"
    using r by (rule main_loop_step)
  show "fst (main_loop n w cfg bp pw s) \<noteq> Some (Return ())"
    using r by (rule main_loop_never_returns)
  show "\<exists>evs. trace (snd (main_loop n w cfg bp pw s)) = trace s @ evs
           \<and> (\<forall>e \<in> set evs. is_Sleep e \<longrightarrow> e = Time_Sleep (sleepDuration cfg))
           \<and> (fst (main_loop n w cfg bp pw s) = None \<longrightarrow> length (filter is_Sleep evs) = n)
           \<and> (fst (main_loop n w cfg bp pw s) \<noteq> None \<longrightarrow> length (filter is_Sleep evs) < n)"
    using r by (rule main_loop_sleeps)
  assume "\<forall>t. fst (main_loop_body w cfg bp pw t) = Return ()"
  with r show "fst (main_loop n w cfg bp pw s) = None"
    by (rule main_loop_unbounded)
next
  assume "0 \<le> sint (targetDuration cfg) \<and> sint (targetDuration cfg) \<le> 18446744073"
  then show "sint (sleepDuration cfg) = (sint (targetDuration cfg) div 2) * 1000000000"
    using sleepDuration_seconds by blast
next
  assume "config_Validate w cfg = None \<and> NewProfileWriter w (trace s) = Inr pw"
  then show "main n w cfg s = main_loop n w cfg (main_baseProfile cfg) pw (emit PW_New s)"
    using main_runs_loop by blast
qed

theorem C7_renewal_loop_witness:
  "\<not> renew cfg_plain
   \<and> fst (main_loop (Suc (Suc (Suc 0))) world_ok cfg_plain (main_baseProfile cfg_plain) ProfileWriter state0)
       = Some (Return ())
   \<and> renew cfg_renew
   \<and> (\<forall>t. fst (main_loop_body world_ok cfg_renew (main_baseProfile cfg_renew) ProfileWriter t) = Return ())
   \<and> 0 \<le> sint (targetDuration cfg_renew) \<and> sint (targetDuration cfg_renew) \<le> 18446744073
   \<and> sint (sleepDuration cfg_renew) = 1800 * 1000000000
   \<and> fst (main_loop (Suc (Suc 0)) world_ok cfg_renew (main_baseProfile cfg_renew) ProfileWriter state0) = None
   \<and> filter is_Sleep
        (trace (snd (main_loop (Suc (Suc 0)) world_ok cfg_renew (main_baseProfile cfg_renew) ProfileWriter state0)))
       = [Time_Sleep (sleepDuration cfg_renew), Time_Sleep (sleepDuration cfg_renew)]
   \<and> config_Validate world_ok cfg_renew = None \<and> NewProfileWriter world_ok (trace state0) = Inr ProfileWriter"
  using C7_renewal_loop [of cfg_plain "Suc (Suc 0)" world_ok "main_baseProfile cfg_plain" ProfileWriter state0]
    C7_renewal_loop [of cfg_renew "Suc (Suc 0)" world_ok "main_baseProfile cfg_renew" ProfileWriter state0]
  by (simp add: run_defs example_defs)

end
